theory Spec2Isabelle
  imports Main "HOL-Library.Log_Nat" "HOL-Library.AList"
begin

section \<open>Python values shared by the notebooks\<close>

text \<open>
  A Python \<open>str\<close> is a sequence of Unicode code points; \<open>enumerate\<close> and indexing
  count code points.  A code point is a natural number, and \<open>str_of\<close> reads an ASCII
  literal as such a sequence.
\<close>

type_synonym pystr = "nat list"

definition str_of :: "string \<Rightarrow> pystr" where
  "str_of s = map of_char s"

definition SPACE :: nat where
  "SPACE = 32"

text \<open>\<open>enumerate(text)\<close>: the pairs \<open>(index, letter)\<close>, the index a Python int from 0.\<close>

fun enumerate_from :: "int \<Rightarrow> 'a list \<Rightarrow> (int \<times> 'a) list" where
  "enumerate_from n [] = []"
| "enumerate_from n (x # xs) = (n, x) # enumerate_from (n + 1) xs"

definition enumerate_py :: "'a list \<Rightarrow> (int \<times> 'a) list" where
  "enumerate_py xs = enumerate_from 0 xs"

text \<open>
  A generator is what it yields, one value at a time, until it returns; \<open>list(...)\<close>
  runs it to the end and collects the values, and \<open>next(...)\<close> takes one value or
  raises StopIteration.  Every generator of the notebooks
  iterates over a finite sequence, so the structure is finite.
\<close>

datatype 'a generator = Return | Yield 'a "'a generator"

fun list_py :: "'a generator \<Rightarrow> 'a list" where
  "list_py Return = []"
| "list_py (Yield v g) = v # list_py g"

text \<open>
  Exceptions.  \<open>exc_class\<close> lists the built-in exception classes the notebooks meet
  and the classes they define themselves; \<open>base\<close> is the class named in the
  \<open>class C(B)\<close> statement (for a built-in class, its base in the interpreter's
  hierarchy).  A raised exception is an instance of one class and carries its message.
\<close>

datatype exc_class =
    BaseException | Exception
  | ArithmeticError | OverflowError | ZeroDivisionError
  | LookupError | KeyError | IndexError
  | ValueError | JSONDecodeError | TypeError | AssertionError | AttributeError | NameError
  | SystemError | OSError | FileNotFoundError | UnsupportedOperation | UnicodeDecodeError
  | UnpicklingError | PicklingError | StopIteration | EOFError
  | Error | InvalidDensityError | NegativeDensityError
  | WeightError | VolumeError | DensityError

fun base :: "exc_class \<Rightarrow> exc_class option" where
  "base BaseException = None"
| "base Exception = Some BaseException"
| "base ArithmeticError = Some Exception"
| "base OverflowError = Some ArithmeticError"
| "base ZeroDivisionError = Some ArithmeticError"
| "base LookupError = Some Exception"
| "base KeyError = Some LookupError"
| "base IndexError = Some LookupError"
| "base ValueError = Some Exception"
| "base JSONDecodeError = Some ValueError"
| "base SystemError = Some Exception"
| "base OSError = Some Exception"
| "base FileNotFoundError = Some OSError"
| "base UnsupportedOperation = Some OSError"
| "base UnicodeDecodeError = Some ValueError"
| "base UnpicklingError = Some Exception"
| "base PicklingError = Some Exception"
| "base StopIteration = Some Exception"
| "base EOFError = Some Exception"
| "base TypeError = Some Exception"
| "base AssertionError = Some Exception"
| "base AttributeError = Some Exception"
| "base NameError = Some Exception"
| "base Error = Some Exception"
| "base InvalidDensityError = Some Error"
| "base NegativeDensityError = Some InvalidDensityError"
| "base WeightError = Some Error"
| "base VolumeError = Some Error"
| "base DensityError = Some Error"

text \<open>The number of classes above a class, the measure of the walk up the hierarchy.\<close>

fun depth :: "exc_class \<Rightarrow> nat" where
  "depth BaseException = 0"
| "depth Exception = 1"
| "depth ArithmeticError = 2"
| "depth OverflowError = 3"
| "depth ZeroDivisionError = 3"
| "depth LookupError = 2"
| "depth KeyError = 3"
| "depth IndexError = 3"
| "depth ValueError = 2"
| "depth JSONDecodeError = 3"
| "depth SystemError = 2"
| "depth OSError = 2"
| "depth FileNotFoundError = 3"
| "depth UnsupportedOperation = 3"
| "depth UnicodeDecodeError = 3"
| "depth UnpicklingError = 2"
| "depth PicklingError = 2"
| "depth StopIteration = 2"
| "depth EOFError = 2"
| "depth TypeError = 2"
| "depth AssertionError = 2"
| "depth AttributeError = 2"
| "depth NameError = 2"
| "depth Error = 2"
| "depth InvalidDensityError = 3"
| "depth NegativeDensityError = 4"
| "depth WeightError = 3"
| "depth VolumeError = 3"
| "depth DensityError = 3"

lemma base_depth: "base c = Some b \<Longrightarrow> depth b < depth c"
  by (cases c) auto

function issubclass :: "exc_class \<Rightarrow> exc_class \<Rightarrow> bool" where
  "issubclass c d =
     (if c = d then True
      else (case base c of None \<Rightarrow> False | Some b \<Rightarrow> issubclass b d))"
  by pat_completeness auto
termination
  by (relation "measure (\<lambda>(c, d). depth c)") (auto simp: base_depth)

declare issubclass.simps [simp del]

datatype exn = Exn (exn_class: exc_class) (exn_message: string)

text \<open>\<open>except C:\<close> handles an exception when it is an instance of \<open>C\<close>.\<close>

definition isinstance :: "exn \<Rightarrow> exc_class \<Rightarrow> bool" where
  "isinstance e c = issubclass (exn_class e) c"

text \<open>\<open>assert cond\<close>: goes on when the condition holds, raises AssertionError otherwise.\<close>

definition assert_py :: "bool \<Rightarrow> exn + unit" where
  "assert_py cond = (if cond then Inr () else Inl (Exn AssertionError []))"

text \<open>
  The \<open>logging\<close> module's root logger writes to the standard error stream.  The
  model keeps what was written, in order: a line \<open>LEVEL:root:message\<close>, and, for
  \<open>logging.exception\<close>, the line followed by the traceback of the exception being
  handled.
\<close>

datatype log_entry = Line string | Traceback exn

type_synonym log = "log_entry list"

definition logging_error :: "string \<Rightarrow> log \<Rightarrow> log" where
  "logging_error msg lg = lg @ [Line (''ERROR:root:'' @ msg)]"

definition logging_exception :: "string \<Rightarrow> exn \<Rightarrow> log \<Rightarrow> log" where
  "logging_exception msg e lg = lg @ [Line (''ERROR:root:'' @ msg), Traceback e]"

definition next_py :: "'a generator \<Rightarrow> exn + 'a \<times> 'a generator" where
  "next_py g = (case g of Return \<Rightarrow> Inl (Exn StopIteration []) | Yield v g' \<Rightarrow> Inr (v, g'))"

fun generator_of :: "'a list \<Rightarrow> 'a generator" where
  "generator_of [] = Return"
| "generator_of (x # xs) = Yield x (generator_of xs)"

text \<open>
  A notebook is a sequence of statements over its variables; a statement that raises
  ends the run with the exception, the variables as they then are.
\<close>

fun run_cells :: "('s \<Rightarrow> 's \<times> exn option) list \<Rightarrow> 's \<Rightarrow> 's \<times> exn option" where
  "run_cells [] s = (s, None)"
| "run_cells (c # cs) s =
     (case c s of
        (s', Some e) \<Rightarrow> (s', Some e)
      | (s', None) \<Rightarrow> run_cells cs s')"

subsection \<open>Numbers\<close>

text \<open>
  A Python \<open>float\<close> is an IEEE 754 binary64 value: a finite double, written as the
  rational it stands for, an infinity or a NaN.  The sign of a zero is left out: no
  notebook observes it, and a division by either zero raises.
\<close>

datatype pyfloat = Finite rat | PosInf | NegInf | NaN

definition pow2 :: "int \<Rightarrow> rat" where
  "pow2 e = (if 0 \<le> e then 2 ^ nat e else 1 / 2 ^ nat (- e))"

text \<open>\<open>ilog2 a\<close> is the exponent \<open>e\<close> with \<open>2^e \<le> a < 2^(e+1)\<close>, for \<open>a > 0\<close>.\<close>

definition ilog2 :: "rat \<Rightarrow> int" where
  "ilog2 a =
     (let (p, q) = quotient_of a;
          e0 = bitlen p - bitlen q
      in if pow2 e0 \<le> a then e0 else e0 - 1)"

definition round_half_even :: "rat \<Rightarrow> int" where
  "round_half_even x =
     (let f = \<lfloor>x\<rfloor>; r = x - of_int f
      in if r < 1 / 2 then f
         else if 1 / 2 < r then f + 1
         else if even f then f else f + 1)"

text \<open>
  Rounding a rational to the nearest double, ties to even: 53 bits of precision, the
  smallest exponent of a unit in the last place \<open>-1074\<close>, and an infinity from
  \<open>2^1024\<close> on.
\<close>

definition round_double :: "rat \<Rightarrow> pyfloat" where
  "round_double x =
     (if x = 0 then Finite 0
      else
        let a = \<bar>x\<bar>;
            e = ilog2 a;
            p = max (e - 52) (- 1074);
            m = round_half_even (a / pow2 p);
            v = of_int m * pow2 p
        in if pow2 1024 \<le> v then (if 0 < x then PosInf else NegInf)
           else Finite (if 0 < x then v else - v))"

text \<open>
  The numbers the division examples pass around: \<open>bool\<close> (a subclass of \<open>int\<close>),
  \<open>int\<close> (unbounded) and \<open>float\<close>.
\<close>

datatype pynum = PBool bool | PInt int | PFloat pyfloat

fun int_value :: "pynum \<Rightarrow> int option" where
  "int_value (PBool b) = Some (if b then 1 else 0)"
| "int_value (PInt n) = Some n"
| "int_value (PFloat f) = None"


text \<open>\<open>x == y\<close> on numbers: by value, exactly; a NaN equals nothing.\<close>

fun float_eq :: "pyfloat \<Rightarrow> pyfloat \<Rightarrow> bool" where
  "float_eq NaN y = False"
| "float_eq x NaN = False"
| "float_eq x y = (x = y)"

fun exact_value :: "pynum \<Rightarrow> pyfloat" where
  "exact_value (PBool b) = Finite (if b then 1 else 0)"
| "exact_value (PInt n) = Finite (of_int n)"
| "exact_value (PFloat f) = f"

definition py_eq :: "pynum \<Rightarrow> pynum \<Rightarrow> bool" where
  "py_eq x y = float_eq (exact_value x) (exact_value y)"


text \<open>
  Converting an int to a float rounds correctly and raises OverflowError when the
  result is not finite.
\<close>

definition float_of_int :: "int \<Rightarrow> exn + pyfloat" where
  "float_of_int n =
     (case round_double (of_int n) of
        PosInf \<Rightarrow> Inl (Exn OverflowError ''int too large to convert to float'')
      | NegInf \<Rightarrow> Inl (Exn OverflowError ''int too large to convert to float'')
      | f \<Rightarrow> Inr f)"

fun convert_to_double :: "pynum \<Rightarrow> exn + pyfloat" where
  "convert_to_double (PFloat f) = Inr f"
| "convert_to_double (PInt n) = float_of_int n"
| "convert_to_double (PBool b) = float_of_int (if b then 1 else 0)"

text \<open>
  The quotient of two doubles, the divisor not zero: the exact quotient rounded, with
  the IEEE results at an infinity or a NaN.
\<close>

fun ieee_div :: "pyfloat \<Rightarrow> pyfloat \<Rightarrow> pyfloat" where
  "ieee_div NaN y = NaN"
| "ieee_div x NaN = NaN"
| "ieee_div (Finite x) (Finite y) = round_double (x / y)"
| "ieee_div (Finite x) y = Finite 0"
| "ieee_div PosInf (Finite y) = (if 0 < y then PosInf else NegInf)"
| "ieee_div NegInf (Finite y) = (if 0 < y then NegInf else PosInf)"
| "ieee_div x y = NaN"

text \<open>\<open>float / float\<close>: raises on a zero divisor, never on overflow.\<close>

definition float_div :: "pyfloat \<Rightarrow> pyfloat \<Rightarrow> exn + pyfloat" where
  "float_div a b =
     (if b = Finite 0 then Inl (Exn ZeroDivisionError ''float division by zero'')
      else Inr (ieee_div a b))"

text \<open>
  \<open>int / int\<close>: raises on a zero divisor; the exact quotient is rounded once, and a
  result that is not finite raises OverflowError.
\<close>

definition long_true_divide :: "int \<Rightarrow> int \<Rightarrow> exn + pyfloat" where
  "long_true_divide a b =
     (if b = 0 then Inl (Exn ZeroDivisionError ''division by zero'')
      else
        (case round_double (of_int a / of_int b) of
           PosInf \<Rightarrow> Inl (Exn OverflowError ''integer division result too large for a float'')
         | NegInf \<Rightarrow> Inl (Exn OverflowError ''integer division result too large for a float'')
         | f \<Rightarrow> Inr f))"

text \<open>
  \<open>number / divisor\<close>.  Two ints divide as ints; otherwise both operands are converted
  to doubles, the left one first, and divide as floats.
\<close>

definition truediv :: "pynum \<Rightarrow> pynum \<Rightarrow> exn + pynum" where
  "truediv x y =
     (case (int_value x, int_value y) of
        (Some a, Some b) \<Rightarrow> map_sum id PFloat (long_true_divide a b)
      | _ \<Rightarrow>
          (case convert_to_double x of
             Inl e \<Rightarrow> Inl e
           | Inr a \<Rightarrow>
               (case convert_to_double y of
                  Inl e \<Rightarrow> Inl e
                | Inr b \<Rightarrow> map_sum id PFloat (float_div a b))))"

text \<open>
  \<open>x < y\<close> and \<open>x >= y\<close> on numbers: by value, exactly (an int and a float are
  compared without converting the int); every comparison with a NaN is false.
\<close>

fun float_lt :: "pyfloat \<Rightarrow> pyfloat \<Rightarrow> bool" where
  "float_lt NaN y = False"
| "float_lt x NaN = False"
| "float_lt (Finite x) (Finite y) = (x < y)"
| "float_lt x PosInf = (x \<noteq> PosInf)"
| "float_lt NegInf y = (y \<noteq> NegInf)"
| "float_lt x y = False"

definition py_lt :: "pynum \<Rightarrow> pynum \<Rightarrow> bool" where
  "py_lt x y = float_lt (exact_value x) (exact_value y)"

definition py_ge :: "pynum \<Rightarrow> pynum \<Rightarrow> bool" where
  "py_ge x y = (float_lt (exact_value y) (exact_value x) \<or> float_eq (exact_value x) (exact_value y))"

text \<open>
  The sum and the difference of two doubles: the exact result rounded (to an infinity
  when it is too large), with the IEEE results at an infinity or a NaN.
\<close>

fun ieee_neg :: "pyfloat \<Rightarrow> pyfloat" where
  "ieee_neg (Finite x) = Finite (- x)"
| "ieee_neg PosInf = NegInf"
| "ieee_neg NegInf = PosInf"
| "ieee_neg NaN = NaN"

fun ieee_add :: "pyfloat \<Rightarrow> pyfloat \<Rightarrow> pyfloat" where
  "ieee_add NaN y = NaN"
| "ieee_add x NaN = NaN"
| "ieee_add (Finite x) (Finite y) = round_double (x + y)"
| "ieee_add PosInf NegInf = NaN"
| "ieee_add NegInf PosInf = NaN"
| "ieee_add (Finite x) y = y"
| "ieee_add x y = x"

definition ieee_sub :: "pyfloat \<Rightarrow> pyfloat \<Rightarrow> pyfloat" where
  "ieee_sub x y = ieee_add x (ieee_neg y)"

text \<open>
  \<open>x + y\<close> and \<open>x - y\<close>.  Two ints (a bool is an int) give an int, exactly; otherwise
  both operands are converted to doubles, the left one first, which raises
  OverflowError for an int too large, and the result is a float.
\<close>

definition py_add :: "pynum \<Rightarrow> pynum \<Rightarrow> exn + pynum" where
  "py_add x y =
     (case (int_value x, int_value y) of
        (Some a, Some b) \<Rightarrow> Inr (PInt (a + b))
      | _ \<Rightarrow>
          (case convert_to_double x of
             Inl e \<Rightarrow> Inl e
           | Inr a \<Rightarrow>
               (case convert_to_double y of
                  Inl e \<Rightarrow> Inl e
                | Inr b \<Rightarrow> Inr (PFloat (ieee_add a b)))))"

definition py_sub :: "pynum \<Rightarrow> pynum \<Rightarrow> exn + pynum" where
  "py_sub x y =
     (case (int_value x, int_value y) of
        (Some a, Some b) \<Rightarrow> Inr (PInt (a - b))
      | _ \<Rightarrow>
          (case convert_to_double x of
             Inl e \<Rightarrow> Inl e
           | Inr a \<Rightarrow>
               (case convert_to_double y of
                  Inl e \<Rightarrow> Inl e
                | Inr b \<Rightarrow> Inr (PFloat (ieee_sub a b)))))"

text \<open>The literal \<open>10**500\<close> of the example calls.\<close>

definition TEN_POW_500 :: int where
  "TEN_POW_500 = 10 ^ 500"

subsection \<open>Calls\<close>

text \<open>
  A call passes positional arguments and keyword arguments.  \<open>bind_args\<close> binds them
  to a signature: the names of the parameters that may be passed by position, the
  defaults among them, and the keyword-only parameters (after the \<open>*\<close>) with their
  defaults.  Every failure to bind raises TypeError.
\<close>

definition bind_args ::
  "string list \<Rightarrow> (string \<times> 'v) list \<Rightarrow> (string \<times> 'v) list \<Rightarrow>
   'v list \<Rightarrow> (string \<times> 'v) list \<Rightarrow> exn + (string \<times> 'v) list" where
  "bind_args positional defaults kwonly args kwargs =
     (if length positional < length args then
        Inl (Exn TypeError ''too many positional arguments'')
      else
        let given = zip positional args in
        if \<not> distinct (map fst kwargs) then
          Inl (Exn TypeError ''multiple values for keyword argument'')
        else if list_ex (\<lambda>k. k \<notin> set positional \<and> k \<notin> set (map fst kwonly)) (map fst kwargs) then
          Inl (Exn TypeError ''unexpected keyword argument'')
        else if list_ex (\<lambda>k. k \<in> set (map fst given)) (map fst kwargs) then
          Inl (Exn TypeError ''multiple values for argument'')
        else
          let bound = given @ kwargs;
              full = bound @ filter (\<lambda>(k, v). k \<notin> set (map fst bound)) (defaults @ kwonly)
          in if list_ex (\<lambda>k. k \<notin> set (map fst full)) positional then
               Inl (Exn TypeError ''missing required positional argument'')
             else Inr full)"

section \<open>Item 16: generators instead of returning lists\<close>

text \<open>
  \<^verbatim>\<open>
  def index_words(text):
      result = []
      if text:
          result.append(0)
      for index, letter in enumerate(text):
          if letter == ' ':
              result.append(index + 1)
      return result
  \<close>
  The \<open>for\<close> loop is \<open>index_words_loop\<close>, which threads the list \<open>result\<close>.
\<close>

fun index_words_loop :: "(int \<times> nat) list \<Rightarrow> int list \<Rightarrow> int list" where
  "index_words_loop [] result = result"
| "index_words_loop ((index, letter) # rest) result =
     index_words_loop rest (if letter = SPACE then result @ [index + 1] else result)"

definition index_words :: "pystr \<Rightarrow> int list" where
  "index_words text =
     (let result = [];
          result = (if text \<noteq> [] then result @ [0] else result)
      in index_words_loop (enumerate_py text) result)"

text \<open>
  \<^verbatim>\<open>
  def index_words_iter(text):
      if text:
          yield 0
      for index, letter in enumerate(text):
          if letter == ' ':
              yield index + 1
  \<close>
\<close>

fun index_words_iter_loop :: "(int \<times> nat) list \<Rightarrow> int generator" where
  "index_words_iter_loop [] = Return"
| "index_words_iter_loop ((index, letter) # rest) =
     (if letter = SPACE then Yield (index + 1) (index_words_iter_loop rest)
      else index_words_iter_loop rest)"

definition index_words_iter :: "pystr \<Rightarrow> int generator" where
  "index_words_iter text =
     (if text \<noteq> [] then Yield 0 (index_words_iter_loop (enumerate_py text))
      else index_words_iter_loop (enumerate_py text))"

section \<open>Item 21: keyword-only arguments\<close>









text \<open>
  The statements of the notebook, example by example.  A call names one of the three
  functions and gives its positional and its keyword arguments.
\<close>

datatype function21 = SafeDivision | SafeDivisionB | SafeDivisionC

datatype call21 = Call function21 "pynum list" "(string \<times> pynum) list"


text \<open>The two conditions the notebook asserts: \<open>... is 0\<close> and \<open>... == float('inf')\<close>.\<close>

datatype test21 = Is0 | EqInf


text \<open>
  The forms of statement in the notebook:
  \<^item> \<open>Def f\<close>: the \<open>def\<close> of a function;
  \<^item> \<open>AssignResult c\<close>: \<open>result = c\<close>;
  \<^item> \<open>PrintResult\<close>: \<open>print(result)\<close>;
  \<^item> \<open>AssertResult t\<close>: \<open>assert result t\<close>;
  \<^item> \<open>AssertCall c t\<close>: \<open>assert c t\<close>;
  \<^item> \<open>ExprCall c\<close>: the call \<open>c\<close> as a statement;
  \<^item> \<open>TryExpected c\<close>, the statement of Example 8:
  \<^verbatim>\<open>
  try:
      c
  except:
      logging.exception('Expected')
  else:
      assert False
  \<close>
  \<^item> \<open>TryZeroDivisionError c\<close>, the statement of Example 9:
  \<^verbatim>\<open>
  try:
      c
      assert False
  except ZeroDivisionError:
      pass  # Expected
  \<close>
\<close>

datatype stmt21 =
    Def function21
  | AssignResult call21
  | PrintResult
  | AssertResult test21
  | AssertCall call21 test21
  | ExprCall call21
  | TryExpected call21
  | TryZeroDivisionError call21

text \<open>The \<open>assert\<close> statements a statement holds.\<close>

fun asserts_in :: "stmt21 \<Rightarrow> nat" where
  "asserts_in (AssertResult t) = 1"
| "asserts_in (AssertCall c t) = 1"
| "asserts_in (TryExpected c) = 1"
| "asserts_in (TryZeroDivisionError c) = 1"
| "asserts_in s = 0"

definition count_asserts :: "stmt21 list \<Rightarrow> nat" where
  "count_asserts stmts = sum_list (map asserts_in stmts)"




text \<open>
  The examples of the notebook, by their numbers (there is no Example 3):
  \<^verbatim>\<open>
  # Example 1
  def safe_division(number, divisor, ignore_overflow, ignore_zero_division): ...
  # Example 2
  result = safe_division(1.0, 10**500, True, False)
  print(result)
  assert result is 0
  result = safe_division(1.0, 0, False, True)
  print(result)
  assert result == float('inf')
  # Example 4
  def safe_division_b(number, divisor, ignore_overflow=False, ignore_zero_division=False): ...
  # Example 5
  assert safe_division_b(1.0, 10**500, ignore_overflow=True) is 0
  assert safe_division_b(1.0, 0, ignore_zero_division=True) == float('inf')
  # Example 6
  assert safe_division_b(1.0, 10**500, True, False) is 0
  # Example 7
  def safe_division_c(number, divisor, *, ignore_overflow=False, ignore_zero_division=False): ...
  # Example 8
  try: safe_division_c(1.0, 10**500, True, False) ...
  # Example 9
  safe_division_c(1.0, 0, ignore_zero_division=True)  # No exception
  try: safe_division_c(1.0, 0) ...
  \<close>
\<close>

definition examples21 :: "(nat \<times> stmt21 list) list" where
  "examples21 =
     [(1, [Def SafeDivision]),
      (2, [AssignResult
             (Call SafeDivision [PFloat (Finite 1), PInt TEN_POW_500, PBool True, PBool False] []),
           PrintResult,
           AssertResult Is0,
           AssignResult
             (Call SafeDivision [PFloat (Finite 1), PInt 0, PBool False, PBool True] []),
           PrintResult,
           AssertResult EqInf]),
      (4, [Def SafeDivisionB]),
      (5, [AssertCall
             (Call SafeDivisionB [PFloat (Finite 1), PInt TEN_POW_500]
                [(''ignore_overflow'', PBool True)])
             Is0,
           AssertCall
             (Call SafeDivisionB [PFloat (Finite 1), PInt 0]
                [(''ignore_zero_division'', PBool True)])
             EqInf]),
      (6, [AssertCall
             (Call SafeDivisionB [PFloat (Finite 1), PInt TEN_POW_500, PBool True, PBool False] [])
             Is0]),
      (7, [Def SafeDivisionC]),
      (8, [TryExpected
             (Call SafeDivisionC [PFloat (Finite 1), PInt TEN_POW_500, PBool True, PBool False] [])]),
      (9, [ExprCall
             (Call SafeDivisionC [PFloat (Finite 1), PInt 0]
                [(''ignore_zero_division'', PBool True)]),
           TryZeroDivisionError (Call SafeDivisionC [PFloat (Finite 1), PInt 0] [])])]"

text \<open>The statements of one example, and the run of the whole notebook in order.\<close>

definition example21 :: "nat \<Rightarrow> stmt21 list" where
  "example21 n = (case map_of examples21 n of None \<Rightarrow> [] | Some stmts \<Rightarrow> stmts)"


section \<open>Item 51: a root exception to insulate callers\<close>

text \<open>
  The values a notebook variable such as \<open>weight\<close> holds: \<open>None\<close> (what a function
  returns when it falls off its end) or an int.
\<close>

datatype weight_val = WNone | WInt int

text \<open>
  \<^verbatim>\<open>
  class Error(Exception): ...
  class InvalidDensityError(Error): ...
  class my_module(object):
      Error = Error
      InvalidDensityError = InvalidDensityError
      @staticmethod
      def determine_weight(volume, density):
          if density <= 0:
              raise InvalidDensityError('Density must be positive')
  \<close>
\<close>

definition my_module_determine_weight :: "int \<Rightarrow> int \<Rightarrow> exn + weight_val" where
  "my_module_determine_weight volume density =
     (if density \<le> 0 then Inl (Exn InvalidDensityError ''Density must be positive'')
      else Inr WNone)"


text \<open>
  The variables of the calling cell: \<open>weight\<close> and what \<open>logging\<close> has written.
\<close>

record caller_state =
  weight :: weight_val
  logged :: log

text \<open>
  Examples 4 and 5, for any \<open>determine_weight\<close> the name \<open>my_module.determine_weight\<close>
  is bound to and any arguments:
  \<^verbatim>\<open>
  weight = 5
  try:
      weight = my_module.determine_weight(volume, density)
      assert False
  except my_module.InvalidDensityError:
      weight = 0
  except my_module.Error as e:
      logging.error('Bug in the calling code: %s', e)
  \<close>
  \<open>caller_try\<close> is the body of the \<open>try\<close>; \<open>caller_handlers\<close> is the choice among
  the \<open>except\<close> clauses, the first one the exception is an instance of.
  \<open>branch_taken\<close> names that clause.
\<close>

definition caller_try ::
  "(int \<Rightarrow> int \<Rightarrow> exn + weight_val) \<Rightarrow> int \<Rightarrow> int \<Rightarrow> caller_state \<Rightarrow> caller_state \<times> exn option" where
  "caller_try dw volume density st =
     (case dw volume density of
        Inl e \<Rightarrow> (st, Some e)
      | Inr w \<Rightarrow>
          (let st = st\<lparr>weight := w\<rparr> in
           case assert_py False of
             Inl e \<Rightarrow> (st, Some e)
           | Inr _ \<Rightarrow> (st, None)))"

datatype branch = ExceptInvalidDensityError | ExceptError | Unhandled

definition branch_taken :: "exn \<Rightarrow> branch" where
  "branch_taken e =
     (if isinstance e InvalidDensityError then ExceptInvalidDensityError
      else if isinstance e Error then ExceptError
      else Unhandled)"

definition caller_handlers :: "exn \<Rightarrow> caller_state \<Rightarrow> caller_state \<times> exn option" where
  "caller_handlers e st =
     (if isinstance e InvalidDensityError then (st\<lparr>weight := WInt 0\<rparr>, None)
      else if isinstance e Error then
        (st\<lparr>logged := logging_error (''Bug in the calling code: '' @ exn_message e) (logged st)\<rparr>,
         None)
      else (st, Some e))"

text \<open>
  The result of the statement: the variables afterwards, and the exception that leaves
  it, if one does.
\<close>

definition example4 ::
  "(int \<Rightarrow> int \<Rightarrow> exn + weight_val) \<Rightarrow> int \<Rightarrow> int \<Rightarrow> caller_state \<times> exn option" where
  "example4 dw volume density =
     (let st = \<lparr>weight = WInt 5, logged = []\<rparr> in
      case caller_try dw volume density st of
        (st', Some e) \<Rightarrow> caller_handlers e st'
      | (st', None) \<Rightarrow> (st', None))"

text \<open>\<open>weight == 0\<close>, the condition of the assertion that ends Examples 4 and 5.\<close>

fun weight_eq_0 :: "weight_val \<Rightarrow> bool" where
  "weight_eq_0 WNone = False"
| "weight_eq_0 (WInt n) = (n = 0)"











section \<open>JSON values and dictionary objects\<close>

text \<open>
  What \<open>json.loads\<close> builds: \<open>None\<close>, numbers (\<open>true\<close> and \<open>false\<close> among them),
  strings, lists, and dictionaries with string keys, the items in insertion order.
\<close>

datatype jvalue =
    JNone
  | JNum pynum
  | JStr string
  | JList "jvalue list"
  | JDict "(string \<times> jvalue) list"

text \<open>
  \<open>json.loads\<close> itself belongs to the standard library, not to the notebooks; the
  functions that call it take it as the parameter \<open>loads\<close>: a parser that returns a
  value or raises.
\<close>

type_synonym json_loads = "string \<Rightarrow> exn + jvalue"

text \<open>
  One such parser, for the examples: what \<open>json.loads\<close> returns on the well-formed
  texts of the notebooks; it rejects every other text, as \<open>json.loads\<close> rejects the
  malformed texts of the notebooks.
\<close>

definition loads_examples :: json_loads where
  \<open>loads_examples text =
     (if text = ''{"foo": "bar"}'' then Inr (JDict [(''foo'', JStr ''bar'')])
      else if text = ''{"numerator": 1, "denominator": 10}'' then
        Inr (JDict [(''numerator'', JNum (PInt 1)), (''denominator'', JNum (PInt 10))])
      else if text = ''{"numerator": 1, "denominator": 0}'' then
        Inr (JDict [(''numerator'', JNum (PInt 1)), (''denominator'', JNum (PInt 0))])
      else Inl (Exn JSONDecodeError ''Expecting value''))\<close>

text \<open>
  A dictionary is an object: two names may refer to one dictionary, and a store
  through one name shows through the other.  The heap lists the dictionaries that
  exist, the address of a dictionary being its position; a new dictionary goes to the
  end.  A variable holds \<open>None\<close>, a reference to a dictionary, or another value.
\<close>

type_synonym dict = "(string \<times> jvalue) list"
type_synonym heap = "dict list"

datatype pyobj = ONone | ORef nat | OVal jvalue

definition new_dict :: "dict \<Rightarrow> heap \<Rightarrow> pyobj \<times> heap" where
  "new_dict items h = (ORef (length h), h @ [items])"

text \<open>The object a parsed value is: a parsed dictionary is a new dictionary object.\<close>

fun box :: "jvalue \<Rightarrow> heap \<Rightarrow> pyobj \<times> heap" where
  "box JNone h = (ONone, h)"
| "box (JDict items) h = new_dict items h"
| "box v h = (OVal v, h)"

text \<open>
  \<open>obj[key] = value\<close>.  Only a dictionary takes a string key; every address held by
  a variable comes from \<open>new_dict\<close>, so the last case does not arise.
\<close>

fun setitem :: "pyobj \<Rightarrow> string \<Rightarrow> jvalue \<Rightarrow> heap \<Rightarrow> exn + heap" where
  "setitem (ORef a) key v h =
     (if a < length h then Inr (h[a := AList.update key v (h ! a)])
      else Inl (Exn SystemError ''no object at this address''))"
| "setitem obj key v h = Inl (Exn TypeError ''object does not support item assignment'')"

text \<open>\<open>a is b\<close> for the objects of the model: the same dictionary, or both \<open>None\<close>.\<close>

fun is_same :: "pyobj \<Rightarrow> pyobj \<Rightarrow> bool" where
  "is_same (ORef a) (ORef b) = (a = b)"
| "is_same ONone ONone = True"
| "is_same x y = False"

text \<open>The dictionary a variable refers to, if it refers to one.\<close>

fun deref :: "heap \<Rightarrow> pyobj \<Rightarrow> dict option" where
  "deref h (ORef a) = (if a < length h then Some (h ! a) else None)"
| "deref h obj = None"



section \<open>Item 20: None and docstrings for dynamic default arguments\<close>

text \<open>
  \<^verbatim>\<open>
  def decode(data, default={}):
      try:
          return json.loads(data)
      except ValueError:
          return default
  \<close>
  The \<open>def\<close> statement evaluates \<open>{}\<close> once, when it runs: \<open>def_decode_wrong\<close>
  creates that dictionary, and the function keeps the reference \<open>shared\<close> to it.  A
  call passes \<open>default\<close> or leaves it out (\<open>None\<close> of the option type).
\<close>

definition def_decode_wrong :: "heap \<Rightarrow> pyobj \<times> heap" where
  "def_decode_wrong h = new_dict [] h"

definition decode_wrong ::
  "json_loads \<Rightarrow> pyobj \<Rightarrow> string \<Rightarrow> pyobj option \<Rightarrow> heap \<Rightarrow> exn + pyobj \<times> heap" where
  "decode_wrong loads shared data default_arg h =
     (let default = (case default_arg of None \<Rightarrow> shared | Some d \<Rightarrow> d) in
      case loads data of
        Inr v \<Rightarrow> Inr (box v h)
      | Inl e \<Rightarrow> if isinstance e ValueError then Inr (default, h) else Inl e)"

text \<open>
  \<^verbatim>\<open>
  def decode(data, default=None):
      if default is None:
          default = {}
      try:
          return json.loads(data)
      except ValueError:
          return default
  \<close>
\<close>

definition decode ::
  "json_loads \<Rightarrow> string \<Rightarrow> pyobj option \<Rightarrow> heap \<Rightarrow> exn + pyobj \<times> heap" where
  "decode loads data default_arg h =
     (let default = (case default_arg of None \<Rightarrow> ONone | Some d \<Rightarrow> d);
          (default, h) = (if is_same default ONone then new_dict [] h else (default, h))
      in case loads data of
           Inr v \<Rightarrow> Inr (box v h)
         | Inl e \<Rightarrow> if isinstance e ValueError then Inr (default, h) else Inl e)"

text \<open>
  Example 5, from any heap:
  \<^verbatim>\<open>
  foo = decode('bad data')
  foo['stuff'] = 5
  bar = decode('also bad')
  bar['meep'] = 1
  assert foo is bar
  \<close>
  with the \<open>def\<close> of the wrong \<open>decode\<close> before it.  The result is \<open>foo\<close>, \<open>bar\<close>
  and the heap at the end.
\<close>

definition example5 :: "json_loads \<Rightarrow> heap \<Rightarrow> exn + pyobj \<times> pyobj \<times> heap" where
  "example5 loads h0 =
     (let (shared, h) = def_decode_wrong h0 in
      case decode_wrong loads shared ''bad data'' None h of
        Inl e \<Rightarrow> Inl e
      | Inr (foo, h) \<Rightarrow>
          (case setitem foo ''stuff'' (JNum (PInt 5)) h of
             Inl e \<Rightarrow> Inl e
           | Inr h \<Rightarrow>
               (case decode_wrong loads shared ''also bad'' None h of
                  Inl e \<Rightarrow> Inl e
                | Inr (bar, h) \<Rightarrow>
                    (case setitem bar ''meep'' (JNum (PInt 1)) h of
                       Inl e \<Rightarrow> Inl e
                     | Inr h \<Rightarrow>
                         (case assert_py (is_same foo bar) of
                            Inl e \<Rightarrow> Inl e
                          | Inr _ \<Rightarrow> Inr (foo, bar, h))))))"

text \<open>Example 8: the same statements, without the assertion, under the fixed \<open>decode\<close>.\<close>

definition example8 :: "json_loads \<Rightarrow> heap \<Rightarrow> exn + pyobj \<times> pyobj \<times> heap" where
  "example8 loads h0 =
     (case decode loads ''bad data'' None h0 of
        Inl e \<Rightarrow> Inl e
      | Inr (foo, h) \<Rightarrow>
          (case setitem foo ''stuff'' (JNum (PInt 5)) h of
             Inl e \<Rightarrow> Inl e
           | Inr h \<Rightarrow>
               (case decode loads ''also bad'' None h of
                  Inl e \<Rightarrow> Inl e
                | Inr (bar, h) \<Rightarrow>
                    (case setitem bar ''meep'' (JNum (PInt 1)) h of
                       Inl e \<Rightarrow> Inl e
                     | Inr h \<Rightarrow> Inr (foo, bar, h)))))"

section \<open>Item 30: \<open>@property\<close> instead of refactoring attributes\<close>

text \<open>
  Time.  A \<open>datetime\<close> is a count of microseconds and a \<open>timedelta\<close> a difference of
  two; \<open>datetime.now()\<close> is read from outside, so every operation that calls it takes
  the reading \<open>now\<close> as an argument.  The functions do not say what an amount of quota
  is: the model takes the numbers of Python for it, a bool, an int or a float, and among
  the floats the infinities and NaN.
\<close>

definition timedelta_seconds :: "int \<Rightarrow> int" where
  "timedelta_seconds period = period * 1000000"

text \<open>
  Example 7:
  \<^verbatim>\<open>
  class Bucket(object):
      def __init__(self, period):
          self.period_delta = timedelta(seconds=period)
          self.reset_time = datetime.now()
          self.max_quota = 0
          self.quota_consumed = 0
  \<close>
\<close>

record bucket =
  period_delta :: int
  reset_time :: int
  max_quota :: pynum
  quota_consumed :: pynum

definition Bucket_init :: "int \<Rightarrow> int \<Rightarrow> bucket" where
  "Bucket_init period now =
     \<lparr>period_delta = timedelta_seconds period, reset_time = now,
      max_quota = PInt 0, quota_consumed = PInt 0\<rparr>"

text \<open>
  Example 8, the getter of the property:
  \<^verbatim>\<open>
  @property
  def quota(self):
      return self.max_quota - self.quota_consumed
  \<close>
\<close>

definition quota :: "bucket \<Rightarrow> exn + pynum" where
  "quota self = py_sub (max_quota self) (quota_consumed self)"

text \<open>
  Example 9, the setter, run by every \<open>bucket.quota = amount\<close>:
  \<^verbatim>\<open>
  @quota.setter
  def quota(self, amount):
      delta = self.max_quota - amount
      if amount == 0:
          self.quota_consumed = 0
          self.max_quota = 0
      elif delta < 0:
          assert self.quota_consumed == 0
          self.max_quota = amount
      else:
          assert self.max_quota >= self.quota_consumed
          self.quota_consumed += delta
  \<close>
  A subtraction, an addition or an assertion that raises does so before the branch
  stores anything, so the bucket is then as it was.
\<close>

definition quota_setter :: "bucket \<Rightarrow> pynum \<Rightarrow> exn + bucket" where
  "quota_setter self amount =
     (case py_sub (max_quota self) amount of
        Inl e \<Rightarrow> Inl e
      | Inr delta \<Rightarrow>
          if py_eq amount (PInt 0) then
            Inr (self\<lparr>quota_consumed := PInt 0, max_quota := PInt 0\<rparr>)
          else if py_lt delta (PInt 0) then
            (case assert_py (py_eq (quota_consumed self) (PInt 0)) of
               Inl e \<Rightarrow> Inl e
             | Inr _ \<Rightarrow> Inr (self\<lparr>max_quota := amount\<rparr>))
          else
            (case assert_py (py_ge (max_quota self) (quota_consumed self)) of
               Inl e \<Rightarrow> Inl e
             | Inr _ \<Rightarrow>
                 (case py_add (quota_consumed self) delta of
                    Inl e \<Rightarrow> Inl e
                  | Inr consumed \<Rightarrow> Inr (self\<lparr>quota_consumed := consumed\<rparr>))))"

text \<open>
  \<open>bucket.quota += amount\<close> and \<open>bucket.quota -= amount\<close>: the getter, the operation,
  then the setter.
\<close>

definition quota_iadd :: "bucket \<Rightarrow> pynum \<Rightarrow> exn + bucket" where
  "quota_iadd b amount =
     (case quota b of
        Inl e \<Rightarrow> Inl e
      | Inr q \<Rightarrow>
          (case py_add q amount of
             Inl e \<Rightarrow> Inl e
           | Inr v \<Rightarrow> quota_setter b v))"

definition quota_isub :: "bucket \<Rightarrow> pynum \<Rightarrow> exn + bucket" where
  "quota_isub b amount =
     (case quota b of
        Inl e \<Rightarrow> Inl e
      | Inr q \<Rightarrow>
          (case py_sub q amount of
             Inl e \<Rightarrow> Inl e
           | Inr v \<Rightarrow> quota_setter b v))"

text \<open>
  Example 2.  The bucket is an object the caller keeps: the result is the bucket after
  the call, and the exception that left the call, if one did.
  \<^verbatim>\<open>
  def fill(bucket, amount):
      now = datetime.now()
      if now - bucket.reset_time > bucket.period_delta:
          bucket.quota = 0
          bucket.reset_time = now
      bucket.quota += amount
  \<close>
\<close>

definition fill :: "bucket \<Rightarrow> pynum \<Rightarrow> int \<Rightarrow> bucket \<times> exn option" where
  "fill b amount now =
     (case (if period_delta b < now - reset_time b then
              (case quota_setter b (PInt 0) of
                 Inl e \<Rightarrow> (b, Some e)
               | Inr b' \<Rightarrow> (b'\<lparr>reset_time := now\<rparr>, None))
            else (b, None)) of
        (b, Some e) \<Rightarrow> (b, Some e)
      | (b, None) \<Rightarrow>
          (case quota_iadd b amount of
             Inl e \<Rightarrow> (b, Some e)
           | Inr b' \<Rightarrow> (b', None)))"

text \<open>
  Example 3.  The result is the bucket after the call and what the call returned or
  raised.
  \<^verbatim>\<open>
  def deduct(bucket, amount):
      now = datetime.now()
      if now - bucket.reset_time > bucket.period_delta:
          return False
      if bucket.quota - amount < 0:
          return False
      bucket.quota -= amount
      return True
  \<close>
\<close>

definition deduct :: "bucket \<Rightarrow> pynum \<Rightarrow> int \<Rightarrow> bucket \<times> (exn + bool)" where
  "deduct b amount now =
     (if period_delta b < now - reset_time b then (b, Inr False)
      else
        (case quota b of
           Inl e \<Rightarrow> (b, Inl e)
         | Inr q \<Rightarrow>
             (case py_sub q amount of
                Inl e \<Rightarrow> (b, Inl e)
              | Inr rest \<Rightarrow>
                  if py_lt rest (PInt 0) then (b, Inr False)
                  else
                    (case quota_isub b amount of
                       Inl e \<Rightarrow> (b, Inl e)
                     | Inr b' \<Rightarrow> (b', Inr True)))))"

text \<open>
  A predicate on the bucket's state is an invariant of the bucket made by
  \<open>Bucket(period)\<close> when the constructor establishes it and every \<open>fill\<close>, every
  \<open>deduct\<close> and every assignment to \<open>quota\<close> preserves it, whatever the amounts and
  the time.
\<close>

definition bucket_invariant :: "int \<Rightarrow> (bucket \<Rightarrow> bool) \<Rightarrow> bool" where
  "bucket_invariant period P \<longleftrightarrow>
     (\<forall>now. P (Bucket_init period now)) \<and>
     (\<forall>b amount now. P b \<longrightarrow> P (fst (fill b amount now))) \<and>
     (\<forall>b amount now. P b \<longrightarrow> P (fst (deduct b amount now))) \<and>
     (\<forall>b amount b'. P b \<longrightarrow> quota_setter b amount = Inr b' \<longrightarrow> P b')"

text \<open>
  What a cell may do to a bucket it holds: call \<open>fill\<close> or \<open>deduct\<close> (with the
  amount and the clock's reading) or assign to \<open>quota\<close>.  An operation that raises
  leaves the bucket as the raise found it, and the next cell goes on with that bucket.
\<close>

datatype bucket_op = Fill pynum int | Deduct pynum int | SetQuota pynum

fun apply_op :: "bucket \<Rightarrow> bucket_op \<Rightarrow> bucket" where
  "apply_op b (Fill amount now) = fst (fill b amount now)"
| "apply_op b (Deduct amount now) = fst (deduct b amount now)"
| "apply_op b (SetQuota amount) =
     (case quota_setter b amount of Inl e \<Rightarrow> b | Inr b' \<Rightarrow> b')"

definition run_ops :: "bucket \<Rightarrow> bucket_op list \<Rightarrow> bucket" where
  "run_ops b ops = foldl apply_op b ops"

text \<open>
  The predicates in question, as Python evaluates them on a bucket:
  \<open>bucket.quota == bucket.max_quota - bucket.quota_consumed\<close>,
  \<open>bucket.max_quota >= bucket.quota_consumed >= 0\<close>, and
  \<open>bucket.period_delta == timedelta(seconds=period)\<close>.  An expression that raises
  does not hold.
\<close>

definition quota_law :: "bucket \<Rightarrow> bool" where
  "quota_law b =
     (case quota b of
        Inl e \<Rightarrow> False
      | Inr q \<Rightarrow>
          (case py_sub (max_quota b) (quota_consumed b) of
             Inl e \<Rightarrow> False
           | Inr d \<Rightarrow> py_eq q d))"

definition range_law :: "bucket \<Rightarrow> bool" where
  "range_law b \<longleftrightarrow>
     py_ge (max_quota b) (quota_consumed b) \<and> py_ge (quota_consumed b) (PInt 0)"

definition period_law :: "int \<Rightarrow> bucket \<Rightarrow> bool" where
  "period_law period b \<longleftrightarrow> period_delta b = timedelta_seconds period"


section \<open>Item 46: built-in algorithms and data structures\<close>



text \<open>
  Example 2 works on dictionaries whose keys are ints and strings.  A dictionary keeps
  its items in the order in which their keys were first inserted: the notebook's
  kernel is Python 3.6, whose \<open>dict\<close> does so, and from Python 3.7 on the language
  guarantees it.  \<open>d[k] = v\<close> replaces the value of a key that is there and puts a new
  key last; \<open>del d[k]\<close> raises KeyError for a key that is not there.
\<close>

datatype dict_key = KInt int | KStr string

type_synonym items = "(dict_key \<times> int) list"

definition setitem_key :: "items \<Rightarrow> dict_key \<Rightarrow> int \<Rightarrow> items" where
  "setitem_key d k v = AList.update k v d"


definition getitem_key :: "items \<Rightarrow> dict_key \<Rightarrow> exn + int" where
  "getitem_key d k =
     (case map_of d k of
        None \<Rightarrow> Inl (Exn KeyError ''key'')
      | Some v \<Rightarrow> Inr v)"







text \<open>
  Example 3 builds two \<open>OrderedDict\<close>s and prints their values in pairs; none of its
  statements can raise.  Examples 4 and 5 count in a dictionary:
  \<^verbatim>\<open>
  stats = {}
  key = 'my_counter'
  if key not in stats:
      stats[key] = 0
  stats[key] += 1
  stats = defaultdict(int)
  stats['my_counter'] += 1
  \<close>
  A \<open>defaultdict(int)\<close> gives 0 for a key that is not there.
\<close>

definition counter_cell :: "exn option" where
  "counter_cell =
     (let stats = [];
          key = KStr ''my_counter'';
          stats = (if map_of stats key = None then setitem_key stats key 0 else stats)
      in case getitem_key stats key of
           Inl e \<Rightarrow> Some e
         | Inr v \<Rightarrow>
             (let stats = setitem_key stats key (v + 1);
                  stats = [];
                  v = (case map_of stats (KStr ''my_counter'') of None \<Rightarrow> 0 | Some v \<Rightarrow> v);
                  stats = setitem_key stats (KStr ''my_counter'') (v + 1)
              in None))"

















section \<open>Files\<close>

text \<open>
  What a file holds, and what a program writes and reads: a text (a \<open>str\<close>; on disk,
  its encoding) or a \<open>bytes\<close> object.  A \<open>bytes\<close> object is a sequence of bytes; the
  run of bytes that \<open>pickle\<close> produces for a value is kept whole, as the pickle
  \<open>'p\<close> it encodes.  The file system maps the names in the working directory to
  contents.  Opening a file in the working directory is taken to succeed where the
  file system allows it: for reading when the file exists, for writing always.
\<close>

datatype 'p byte = Byte nat | PickleOf 'p

datatype 'p data = Str string | Bytes "'p byte list"

type_synonym 'p fs = "string \<Rightarrow> 'p data option"

datatype mode = ModeR | ModeW | ModeRPlus | ModeRB | ModeWB

fun binary :: "mode \<Rightarrow> bool" where
  "binary ModeRB = True"
| "binary ModeWB = True"
| "binary m = False"

fun writable :: "mode \<Rightarrow> bool" where
  "writable ModeR = False"
| "writable ModeRB = False"
| "writable m = True"

text \<open>An open file: its name, its mode and the position of the next read or write.\<close>

record handle =
  fname :: string
  fmode :: mode
  pos :: nat

text \<open>
  \<open>open(name, mode)\<close>: \<open>'w'\<close> and \<open>'wb'\<close> create the file or empty it; the other
  modes need the file to exist.
\<close>

definition open_py :: "string \<Rightarrow> mode \<Rightarrow> 'p fs \<Rightarrow> exn + handle \<times> 'p fs" where
  "open_py name m fs =
     (case m of
        ModeW \<Rightarrow> Inr (\<lparr>fname = name, fmode = m, pos = 0\<rparr>, fs(name \<mapsto> Str []))
      | ModeWB \<Rightarrow> Inr (\<lparr>fname = name, fmode = m, pos = 0\<rparr>, fs(name \<mapsto> Bytes []))
      | _ \<Rightarrow>
          (case fs name of
             None \<Rightarrow> Inl (Exn FileNotFoundError name)
           | Some c \<Rightarrow> Inr (\<lparr>fname = name, fmode = m, pos = 0\<rparr>, fs)))"

text \<open>Writing \<open>new\<close> over \<open>old\<close> from position \<open>p\<close>; what lies beyond the end of \<open>new\<close> stays.\<close>

definition overwrite :: "nat \<Rightarrow> 'a list \<Rightarrow> 'a list \<Rightarrow> 'a list" where
  "overwrite p new old = take p old @ new @ drop (p + length new) old"

text \<open>
  \<open>f.write(d)\<close>.  A file opened in a text mode takes a \<open>str\<close> and raises TypeError on
  anything else; a file opened in a binary mode takes \<open>bytes\<close> and raises TypeError on
  a \<open>str\<close>.  The result is the handle and the file system after the call, and the
  exception if the call raised.
\<close>

definition write_py :: "handle \<Rightarrow> 'p data \<Rightarrow> 'p fs \<Rightarrow> (handle \<times> 'p fs) \<times> exn option" where
  "write_py f d fs =
     (if \<not> writable (fmode f) then ((f, fs), Some (Exn UnsupportedOperation ''not writable''))
      else if binary (fmode f) then
        (case d of
           Str s \<Rightarrow> ((f, fs), Some (Exn TypeError ''a bytes-like object is required, not str''))
         | Bytes bs \<Rightarrow>
             (case fs (fname f) of
                Some (Bytes old) \<Rightarrow>
                  ((f\<lparr>pos := pos f + length bs\<rparr>, fs(fname f \<mapsto> Bytes (overwrite (pos f) bs old))),
                   None)
              | _ \<Rightarrow> ((f, fs), Some (Exn OSError ''not a file of bytes''))))
      else
        (case d of
           Str s \<Rightarrow>
             (case fs (fname f) of
                Some (Str old) \<Rightarrow>
                  ((f\<lparr>pos := pos f + length s\<rparr>, fs(fname f \<mapsto> Str (overwrite (pos f) s old))),
                   None)
              | _ \<Rightarrow> ((f, fs), Some (Exn OSError ''not a file of text'')))
         | _ \<Rightarrow> ((f, fs), Some (Exn TypeError ''write() argument must be str, not bytes''))))"

text \<open>\<open>f.read()\<close> in a text mode: the text from the position to the end.\<close>

definition read_py :: "handle \<Rightarrow> 'p fs \<Rightarrow> exn + string \<times> handle" where
  "read_py f fs =
     (case fs (fname f) of
        Some (Str s) \<Rightarrow> Inr (drop (pos f) s, f\<lparr>pos := max (pos f) (length s)\<rparr>)
      | Some d \<Rightarrow> Inl (Exn UnicodeDecodeError ''invalid start byte'')
      | None \<Rightarrow> Inl (Exn FileNotFoundError (fname f)))"

definition seek_py :: "handle \<Rightarrow> nat \<Rightarrow> handle" where
  "seek_py f p = f\<lparr>pos := p\<rparr>"

text \<open>
  \<open>with open(name, mode) as f: f.write(d)\<close>: the file is closed when the block is
  left, by its end or by an exception, which then goes on.
\<close>

definition with_write :: "string \<Rightarrow> mode \<Rightarrow> 'p data \<Rightarrow> 'p fs \<Rightarrow> 'p fs \<times> exn option" where
  "with_write name m d fs =
     (case open_py name m fs of
        Inl e \<Rightarrow> (fs, Some e)
      | Inr (f, fs') \<Rightarrow>
          (case write_py f d fs' of ((f', fs''), raised) \<Rightarrow> (fs'', raised)))"

section \<open>Item 3: bytes, str and unicode\<close>

text \<open>
  \<open>os.urandom(10)\<close> returns bytes from the operating system; the two calls of the
  cell are the arguments \<open>random1\<close> and \<open>random2\<close>.
  \<^verbatim>\<open>
  try:
      import os
      with open('random.bin', 'w') as f:
          f.write(os.urandom(10))
  except:
      logging.exception('Expected')
  else:
      assert False

  with open('random.bin', 'wb') as f:
      f.write(os.urandom(10))
  \<close>
  \<open>write_text_mode\<close> is the \<open>try\<close> statement and \<open>write_binary_mode\<close> the statement
  after it; the result is the file system, the log, and the exception that leaves the
  cell, if one does.
\<close>

definition write_text_mode :: "nat list \<Rightarrow> 'p fs \<Rightarrow> log \<Rightarrow> ('p fs \<times> log) \<times> exn option" where
  "write_text_mode random1 fs lg =
     (case with_write ''random.bin'' ModeW (Bytes (map Byte random1)) fs of
        (fs', Some e) \<Rightarrow> ((fs', logging_exception ''Expected'' e lg), None)
      | (fs', None) \<Rightarrow>
          (case assert_py False of
             Inl e \<Rightarrow> ((fs', lg), Some e)
           | Inr _ \<Rightarrow> ((fs', lg), None)))"

definition write_binary_mode :: "nat list \<Rightarrow> 'p fs \<Rightarrow> 'p fs \<times> exn option" where
  "write_binary_mode random2 fs = with_write ''random.bin'' ModeWB (Bytes (map Byte random2)) fs"

definition bytes_cell :: "nat list \<Rightarrow> nat list \<Rightarrow> 'p fs \<Rightarrow> log \<Rightarrow> ('p fs \<times> log) \<times> exn option" where
  "bytes_cell random1 random2 fs lg =
     (case write_text_mode random1 fs lg of
        ((fs', lg'), Some e) \<Rightarrow> ((fs', lg'), Some e)
      | ((fs', lg'), None) \<Rightarrow>
          (case write_binary_mode random2 fs' of (fs'', raised) \<Rightarrow> ((fs'', lg'), raised)))"

section \<open>Item 44: make pickle reliable with copyreg\<close>

text \<open>
  The notebook defines the class \<open>GameState\<close> five times and then \<open>BetterGameState\<close>;
  each \<open>class\<close> statement makes a new class object, named here after the example
  that holds the statement.  The name a class was defined under is what \<open>pickle\<close>
  writes for it.
\<close>

datatype cls =
    GameState1 | GameState5 | GameState9 | GameState14 | GameState16 | BetterGameState21

fun class_name :: "cls \<Rightarrow> string" where
  "class_name BetterGameState21 = ''BetterGameState''"
| "class_name c = ''GameState''"

text \<open>An instance: its class and its \<open>__dict__\<close>, the attributes in the order they were set.\<close>

record state_object =
  cls_of :: cls
  attrs :: "(string \<times> int) list"

text \<open>
  The parameters of \<open>__init__\<close> after \<open>self\<close>, with their defaults, class by class:
  \<^verbatim>\<open>
  def __init__(self):                                      # Examples 1 and 5
  def __init__(self, level=0, lives=4, points=0):          # Example 9
  def __init__(self, level=0, lives=4, points=0, magic=5): # Example 14
  def __init__(self, level=0, points=0, magic=5):          # Examples 16 and 21
  \<close>
  and the attributes the body sets when it is given no argument, in the body's order.
\<close>

fun init_params :: "cls \<Rightarrow> (string \<times> int) list" where
  "init_params GameState1 = []"
| "init_params GameState5 = []"
| "init_params GameState9 = [(''level'', 0), (''lives'', 4), (''points'', 0)]"
| "init_params GameState14 = [(''level'', 0), (''lives'', 4), (''points'', 0), (''magic'', 5)]"
| "init_params GameState16 = [(''level'', 0), (''points'', 0), (''magic'', 5)]"
| "init_params BetterGameState21 = [(''level'', 0), (''points'', 0), (''magic'', 5)]"

fun init_constants :: "cls \<Rightarrow> (string \<times> int) list" where
  "init_constants GameState1 = [(''level'', 0), (''lives'', 4)]"
| "init_constants GameState5 = [(''level'', 0), (''lives'', 4), (''points'', 0)]"
| "init_constants c = []"

text \<open>
  \<open>C(*args, **kwargs)\<close>: the arguments are bound to the parameters of \<open>__init__\<close>
  (TypeError if they do not fit), and the body sets one attribute per parameter, or
  its constants.
\<close>

definition construct :: "cls \<Rightarrow> int list \<Rightarrow> (string \<times> int) list \<Rightarrow> exn + state_object" where
  "construct c args kwargs =
     (case bind_args (map fst (init_params c)) (init_params c) [] args kwargs of
        Inl e \<Rightarrow> Inl e
      | Inr bound \<Rightarrow>
          Inr \<lparr>cls_of = c,
               attrs = init_constants c @
                       map (\<lambda>k. (k, case map_of bound k of Some v \<Rightarrow> v | None \<Rightarrow> 0))
                           (map fst (init_params c))\<rparr>)"

text \<open>\<open>obj.name += n\<close> on an attribute the object has.\<close>

definition add_attr :: "string \<Rightarrow> int \<Rightarrow> state_object \<Rightarrow> exn + state_object" where
  "add_attr name n obj =
     (case map_of (attrs obj) name of
        None \<Rightarrow> Inl (Exn AttributeError name)
      | Some v \<Rightarrow> Inr (obj\<lparr>attrs := AList.update name (v + n) (attrs obj)\<rparr>))"

text \<open>
  What \<open>pickle\<close> writes for an object.  Without a registered function it writes the
  name of the object's class and the object's \<open>__dict__\<close>.  With a function registered
  through \<open>copyreg\<close>, it writes what the function returns: the name of the function
  to call when loading, and the argument for it (here always one dictionary).
\<close>

datatype pickled =
    ByClass string "(string \<times> int) list"
  | ByFunction string "(string \<times> int) list"

text \<open>
  The two versions of each helper.
  \<^verbatim>\<open>
  def pickle_game_state(game_state):             # Example 10
      kwargs = game_state.__dict__
      return unpickle_game_state, (kwargs,)

  def pickle_game_state(game_state):             # Example 18
      kwargs = game_state.__dict__
      kwargs['version'] = 2
      return unpickle_game_state, (kwargs,)
  \<close>
  \<open>kwargs\<close> is the object's own \<open>__dict__\<close>, so the store of Example 18 gives the
  object itself an attribute \<open>version\<close>: the result is the object afterwards and the
  dictionary returned.
\<close>

datatype reducer = PickleGameState10 | PickleGameState18

fun pickle_game_state :: "reducer \<Rightarrow> state_object \<Rightarrow> state_object \<times> (string \<times> int) list" where
  "pickle_game_state PickleGameState10 game_state = (game_state, attrs game_state)"
| "pickle_game_state PickleGameState18 game_state =
     (let kwargs = AList.update ''version'' 2 (attrs game_state)
      in (game_state\<lparr>attrs := kwargs\<rparr>, kwargs))"

text \<open>
  The names the notebook has bound: classes, the function \<open>unpickle_game_state\<close>, and
  the table of \<open>copyreg\<close>, from classes to registered functions.
\<close>

datatype unpickler = UnpickleGameState11 | UnpickleGameState19

record env =
  classes :: "string \<Rightarrow> cls option"
  unpickle_binding :: "unpickler option"
  dispatch_table :: "cls \<Rightarrow> reducer option"

text \<open>
  \<^verbatim>\<open>
  def unpickle_game_state(kwargs):               # Example 11
      return GameState(**kwargs)

  def unpickle_game_state(kwargs):               # Example 19
      version = kwargs.pop('version', 1)
      if version == 1:
          kwargs.pop('lives')
      return GameState(**kwargs)
  \<close>
  \<open>GameState\<close> is looked up when the function runs.
\<close>

definition call_GameState :: "env \<Rightarrow> (string \<times> int) list \<Rightarrow> exn + state_object" where
  "call_GameState en kwargs =
     (case classes en ''GameState'' of
        None \<Rightarrow> Inl (Exn NameError ''GameState'')
      | Some c \<Rightarrow> construct c [] kwargs)"

fun unpickle_game_state :: "unpickler \<Rightarrow> env \<Rightarrow> (string \<times> int) list \<Rightarrow> exn + state_object" where
  "unpickle_game_state UnpickleGameState11 en kwargs = call_GameState en kwargs"
| "unpickle_game_state UnpickleGameState19 en kwargs =
     (let version = (case map_of kwargs ''version'' of Some v \<Rightarrow> v | None \<Rightarrow> 1);
          kwargs = AList.delete ''version'' kwargs
      in if version = 1 then
           (case map_of kwargs ''lives'' of
              None \<Rightarrow> Inl (Exn KeyError ''lives'')
            | Some l \<Rightarrow> call_GameState en (AList.delete ''lives'' kwargs))
         else call_GameState en kwargs)"

text \<open>
  \<open>pickle.dumps(obj)\<close>.  A class is written by name, and \<open>pickle\<close> refuses a class
  that its name does not lead back to.  The result is the object afterwards and the
  pickle.
\<close>

definition pickle_dumps :: "env \<Rightarrow> state_object \<Rightarrow> state_object \<times> (exn + pickled)" where
  "pickle_dumps en obj =
     (case dispatch_table en (cls_of obj) of
        Some r \<Rightarrow>
          (case pickle_game_state r obj of
             (obj', kwargs) \<Rightarrow>
               (case unpickle_binding en of
                  None \<Rightarrow> (obj, Inl (Exn NameError ''unpickle_game_state''))
                | Some u \<Rightarrow> (obj', Inr (ByFunction ''unpickle_game_state'' kwargs))))
      | None \<Rightarrow>
          (if classes en (class_name (cls_of obj)) = Some (cls_of obj) then
             (obj, Inr (ByClass (class_name (cls_of obj)) (attrs obj)))
           else (obj, Inl (Exn PicklingError ''not the same object''))))"

text \<open>
  \<open>pickle.loads(data)\<close>.  A class written by name is looked up, and the object is made
  without a call of \<open>__init__\<close>: it gets the pickled \<open>__dict__\<close>.  A function written
  by name is looked up and called.
\<close>

definition pickle_loads :: "env \<Rightarrow> pickled \<Rightarrow> exn + state_object" where
  "pickle_loads en p =
     (case p of
        ByClass name state \<Rightarrow>
          (case classes en name of
             None \<Rightarrow> Inl (Exn AttributeError name)
           | Some c \<Rightarrow> Inr \<lparr>cls_of = c, attrs = state\<rparr>)
      | ByFunction name kwargs \<Rightarrow>
          (if name = ''unpickle_game_state'' then
             (case unpickle_binding en of
                None \<Rightarrow> Inl (Exn AttributeError name)
              | Some u \<Rightarrow> unpickle_game_state u en kwargs)
           else Inl (Exn AttributeError name)))"

text \<open>
  \<^verbatim>\<open>
  with open(state_path, 'wb') as f:
      pickle.dump(state, f)
  with open(state_path, 'rb') as f:
      state_after = pickle.load(f)
  \<close>
\<close>

definition pickle_dump_file ::
  "env \<Rightarrow> string \<Rightarrow> state_object \<Rightarrow> pickled fs \<Rightarrow> (state_object \<times> pickled fs) \<times> exn option" where
  "pickle_dump_file en path obj fs =
     (case open_py path ModeWB fs of
        Inl e \<Rightarrow> ((obj, fs), Some e)
      | Inr (f, fs') \<Rightarrow>
          (case pickle_dumps en obj of
             (obj', Inl e) \<Rightarrow> ((obj', fs'), Some e)
           | (obj', Inr p) \<Rightarrow>
               (case write_py f (Bytes [PickleOf p]) fs' of
                  ((f', fs''), raised) \<Rightarrow> ((obj', fs''), raised))))"

definition pickle_load_file :: "env \<Rightarrow> string \<Rightarrow> pickled fs \<Rightarrow> exn + state_object" where
  "pickle_load_file en path fs =
     (case open_py path ModeRB fs of
        Inl e \<Rightarrow> Inl e
      | Inr (f, fs') \<Rightarrow>
          (case fs' path of
             Some (Bytes (PickleOf p # rest)) \<Rightarrow> pickle_loads en p
           | Some (Bytes []) \<Rightarrow> Inl (Exn EOFError ''Ran out of input'')
           | _ \<Rightarrow> Inl (Exn UnpicklingError ''invalid load key'')))"

text \<open>
  The variables of the notebook: the bound names, the working directory, \<open>state\<close>,
  \<open>serialized\<close> and \<open>state_after\<close> (unbound at first), the dictionaries printed by
  \<open>print(state_after.__dict__)\<close>, and the log.  Examples 23 and 25 also print a
  prefix of the pickled bytes, which the model, keeping a pickle whole, leaves out.
\<close>

record notebook44 =
  bindings :: env
  pickle_binding :: "reducer option"
  files :: "pickled fs"
  state :: "state_object option"
  serialized :: "pickled option"
  state_after :: "state_object option"
  printed :: "(string \<times> int) list list"
  logged44 :: log

definition state_path :: string where
  "state_path = ''game_state.bin''"

text \<open>Reading a variable: NameError when it is not bound.\<close>

definition get_var :: "string \<Rightarrow> 'a option \<Rightarrow> exn + 'a" where
  "get_var name v = (case v of None \<Rightarrow> Inl (Exn NameError name) | Some x \<Rightarrow> Inr x)"

text \<open>A \<open>class GameState\<close> statement, and the \<open>def\<close> statements of the helpers.\<close>

definition bind_class :: "string \<Rightarrow> cls \<Rightarrow> notebook44 \<Rightarrow> notebook44 \<times> exn option" where
  "bind_class name c s = (s\<lparr>bindings := (bindings s)\<lparr>classes := (classes (bindings s))(name \<mapsto> c)\<rparr>\<rparr>, None)"

definition def_pickle_game_state :: "reducer \<Rightarrow> notebook44 \<Rightarrow> notebook44 \<times> exn option" where
  "def_pickle_game_state r s = (s\<lparr>pickle_binding := Some r\<rparr>, None)"

definition def_unpickle_game_state :: "unpickler \<Rightarrow> notebook44 \<Rightarrow> notebook44 \<times> exn option" where
  "def_unpickle_game_state u s = (s\<lparr>bindings := (bindings s)\<lparr>unpickle_binding := Some u\<rparr>\<rparr>, None)"

text \<open>\<open>copyreg.pickle(C, pickle_game_state)\<close>, for the class the name \<open>C\<close> is bound to.\<close>

definition copyreg_pickle :: "string \<Rightarrow> notebook44 \<Rightarrow> notebook44 \<times> exn option" where
  "copyreg_pickle name s =
     (case (classes (bindings s) name, pickle_binding s) of
        (Some c, Some r) \<Rightarrow>
          (s\<lparr>bindings := (bindings s)\<lparr>dispatch_table := (dispatch_table (bindings s))(c \<mapsto> r)\<rparr>\<rparr>, None)
      | _ \<Rightarrow> (s, Some (Exn NameError name)))"

text \<open>\<open>state = C()\<close>, for the class the name \<open>C\<close> is bound to.\<close>

definition new_state :: "string \<Rightarrow> notebook44 \<Rightarrow> notebook44 \<times> exn option" where
  "new_state name s =
     (case classes (bindings s) name of
        None \<Rightarrow> (s, Some (Exn NameError name))
      | Some c \<Rightarrow>
          (case construct c [] [] of
             Inl e \<Rightarrow> (s, Some e)
           | Inr obj \<Rightarrow> (s\<lparr>state := Some obj\<rparr>, None)))"

text \<open>\<open>state.name += n\<close>\<close>

definition state_add :: "string \<Rightarrow> int \<Rightarrow> notebook44 \<Rightarrow> notebook44 \<times> exn option" where
  "state_add name n s =
     (case get_var ''state'' (state s) of
        Inl e \<Rightarrow> (s, Some e)
      | Inr obj \<Rightarrow>
          (case add_attr name n obj of
             Inl e \<Rightarrow> (s, Some e)
           | Inr obj' \<Rightarrow> (s\<lparr>state := Some obj'\<rparr>, None)))"

text \<open>\<open>with open(state_path, 'wb') as f: pickle.dump(state, f)\<close>\<close>

definition dump_state :: "notebook44 \<Rightarrow> notebook44 \<times> exn option" where
  "dump_state s =
     (case get_var ''state'' (state s) of
        Inl e \<Rightarrow> (s, Some e)
      | Inr obj \<Rightarrow>
          (case pickle_dump_file (bindings s) state_path obj (files s) of
             ((obj', fs'), raised) \<Rightarrow> (s\<lparr>state := Some obj', files := fs'\<rparr>, raised)))"

text \<open>
  \<open>with open(state_path, 'rb') as f: state_after = pickle.load(f)\<close>, then
  \<open>print(state_after.__dict__)\<close>
\<close>

definition print_state_after :: "notebook44 \<Rightarrow> notebook44 \<times> exn option" where
  "print_state_after s =
     (case get_var ''state_after'' (state_after s) of
        Inl e \<Rightarrow> (s, Some e)
      | Inr obj \<Rightarrow> (s\<lparr>printed := printed s @ [attrs obj]\<rparr>, None))"

definition load_state_after :: "notebook44 \<Rightarrow> notebook44 \<times> exn option" where
  "load_state_after s =
     (case pickle_load_file (bindings s) state_path (files s) of
        Inl e \<Rightarrow> (s, Some e)
      | Inr obj \<Rightarrow> (s\<lparr>state_after := Some obj\<rparr>, None))"

text \<open>\<open>serialized = pickle.dumps(state)\<close> and \<open>state_after = pickle.loads(serialized)\<close>\<close>

definition dumps_state :: "notebook44 \<Rightarrow> notebook44 \<times> exn option" where
  "dumps_state s =
     (case get_var ''state'' (state s) of
        Inl e \<Rightarrow> (s, Some e)
      | Inr obj \<Rightarrow>
          (case pickle_dumps (bindings s) obj of
             (obj', Inl e) \<Rightarrow> (s\<lparr>state := Some obj'\<rparr>, Some e)
           | (obj', Inr p) \<Rightarrow> (s\<lparr>state := Some obj', serialized := Some p\<rparr>, None)))"

definition loads_serialized :: "notebook44 \<Rightarrow> exn + state_object" where
  "loads_serialized s =
     (case get_var ''serialized'' (serialized s) of
        Inl e \<Rightarrow> Inl e
      | Inr p \<Rightarrow> pickle_loads (bindings s) p)"

definition loads_state_after :: "notebook44 \<Rightarrow> notebook44 \<times> exn option" where
  "loads_state_after s =
     (case loads_serialized s of
        Inl e \<Rightarrow> (s, Some e)
      | Inr obj \<Rightarrow> (s\<lparr>state_after := Some obj\<rparr>, None))"

text \<open>
  Examples 17 and 22:
  \<^verbatim>\<open>
  try:
      pickle.loads(serialized)
  except:
      logging.exception('Expected')
  else:
      assert False
  \<close>
\<close>

definition loads_expecting_error :: "notebook44 \<Rightarrow> notebook44 \<times> exn option" where
  "loads_expecting_error s =
     (case loads_serialized s of
        Inl e \<Rightarrow> (s\<lparr>logged44 := logging_exception ''Expected'' e (logged44 s)\<rparr>, None)
      | Inr obj \<Rightarrow>
          (case assert_py False of
             Inl e \<Rightarrow> (s, Some e)
           | Inr _ \<Rightarrow> (s, None)))"

text \<open>
  Example 8: \<open>assert isinstance(state_after, GameState)\<close>.  No class of the notebook
  has a subclass, so the object is an instance of the class exactly when the class is
  its own.
\<close>

definition assert_isinstance_GameState :: "notebook44 \<Rightarrow> notebook44 \<times> exn option" where
  "assert_isinstance_GameState s =
     (case get_var ''state_after'' (state_after s) of
        Inl e \<Rightarrow> (s, Some e)
      | Inr obj \<Rightarrow>
          (case get_var ''GameState'' (classes (bindings s) ''GameState'') of
             Inl e \<Rightarrow> (s, Some e)
           | Inr c \<Rightarrow>
               (case assert_py (cls_of obj = c) of
                  Inl e \<Rightarrow> (s, Some e)
                | Inr _ \<Rightarrow> (s, None))))"

text \<open>Example 21: \<open>copyreg.dispatch_table.clear()\<close> and \<open>del GameState\<close>.\<close>

definition dispatch_table_clear :: "notebook44 \<Rightarrow> notebook44 \<times> exn option" where
  "dispatch_table_clear s = (s\<lparr>bindings := (bindings s)\<lparr>dispatch_table := (\<lambda>c. None)\<rparr>\<rparr>, None)"

definition del_GameState :: "notebook44 \<Rightarrow> notebook44 \<times> exn option" where
  "del_GameState s =
     (case classes (bindings s) ''GameState'' of
        None \<Rightarrow> (s, Some (Exn NameError ''GameState''))
      | Some c \<Rightarrow> (s\<lparr>bindings := (bindings s)\<lparr>classes := (classes (bindings s))(''GameState'' := None)\<rparr>\<rparr>, None))"

text \<open>The seven code cells of the notebook, Examples 1 to 25 in order.\<close>

definition cell1 :: "(notebook44 \<Rightarrow> notebook44 \<times> exn option) list" where
  "cell1 = [bind_class ''GameState'' GameState1,
            new_state ''GameState'', state_add ''level'' 1, state_add ''lives'' (- 1)]"

definition cell2 :: "(notebook44 \<Rightarrow> notebook44 \<times> exn option) list" where
  "cell2 = [dump_state, load_state_after, print_state_after]"

definition cell3 :: "(notebook44 \<Rightarrow> notebook44 \<times> exn option) list" where
  "cell3 = [bind_class ''GameState'' GameState5,
            new_state ''GameState'', dumps_state, loads_state_after, print_state_after]"

definition cell4 :: "(notebook44 \<Rightarrow> notebook44 \<times> exn option) list" where
  "cell4 = [load_state_after, print_state_after, assert_isinstance_GameState]"

definition cell5 :: "(notebook44 \<Rightarrow> notebook44 \<times> exn option) list" where
  "cell5 = [bind_class ''GameState'' GameState9,
            def_pickle_game_state PickleGameState10,
            def_unpickle_game_state UnpickleGameState11,
            copyreg_pickle ''GameState'',
            new_state ''GameState'', state_add ''points'' 1000, dumps_state,
            loads_state_after, print_state_after,
            bind_class ''GameState'' GameState14,
            loads_state_after, print_state_after]"

definition cell6 :: "(notebook44 \<Rightarrow> notebook44 \<times> exn option) list" where
  "cell6 = [bind_class ''GameState'' GameState16,
            loads_expecting_error,
            def_pickle_game_state PickleGameState18,
            def_unpickle_game_state UnpickleGameState19,
            copyreg_pickle ''GameState'', loads_state_after, print_state_after]"

definition cell7 :: "(notebook44 \<Rightarrow> notebook44 \<times> exn option) list" where
  "cell7 = [dispatch_table_clear, new_state ''GameState'', dumps_state, del_GameState,
            bind_class ''BetterGameState'' BetterGameState21,
            loads_expecting_error,
            copyreg_pickle ''BetterGameState'',
            new_state ''BetterGameState'', dumps_state]"

text \<open>A fresh kernel in a working directory \<open>fs\<close>: nothing bound, nothing printed.\<close>

definition fresh44 :: "pickled fs \<Rightarrow> notebook44" where
  "fresh44 fs =
     \<lparr>bindings = \<lparr>classes = (\<lambda>n. None), unpickle_binding = None, dispatch_table = (\<lambda>c. None)\<rparr>,
      pickle_binding = None, files = fs, state = None, serialized = None,
      state_after = None, printed = [], logged44 = []\<rparr>"

definition notebook44_run :: "pickled fs \<Rightarrow> notebook44 \<times> exn option" where
  "notebook44_run fs =
     run_cells (cell1 @ cell2 @ cell3 @ cell4 @ cell5 @ cell6 @ cell7) (fresh44 fs)"

text \<open>
  The names bound when Example 3 writes the file, when Example 7 reads it again, and
  when Example 20 loads the data of Example 13.
\<close>

definition bindings_example3 :: env where
  "bindings_example3 =
     \<lparr>classes = [''GameState'' \<mapsto> GameState1], unpickle_binding = None,
      dispatch_table = (\<lambda>c. None)\<rparr>"

definition bindings_example7 :: env where
  "bindings_example7 =
     \<lparr>classes = [''GameState'' \<mapsto> GameState5], unpickle_binding = None,
      dispatch_table = (\<lambda>c. None)\<rparr>"

definition bindings_example20 :: env where
  "bindings_example20 =
     \<lparr>classes = [''GameState'' \<mapsto> GameState16],
      unpickle_binding = Some UnpickleGameState19,
      dispatch_table = [GameState9 \<mapsto> PickleGameState10, GameState16 \<mapsto> PickleGameState18]\<rparr>"

section \<open>Item 13: each block of try/except/else/finally\<close>

text \<open>\<open>d[key]\<close> on a parsed value: only a dictionary has string keys.\<close>

fun getitem :: "jvalue \<Rightarrow> string \<Rightarrow> exn + jvalue" where
  "getitem (JDict items) key =
     (case map_of items key of
        None \<Rightarrow> Inl (Exn KeyError key)
      | Some v \<Rightarrow> Inr v)"
| "getitem v key = Inl (Exn TypeError ''not subscriptable by a string'')"

text \<open>\<open>x / y\<close> on parsed values: numbers divide, anything else raises TypeError.\<close>

fun truediv_values :: "jvalue \<Rightarrow> jvalue \<Rightarrow> exn + pynum" where
  "truediv_values (JNum x) (JNum y) = truediv x y"
| "truediv_values x y = Inl (Exn TypeError ''unsupported operand type(s) for /'')"

text \<open>\<open>v == 'text'\<close> on a parsed value.\<close>

fun eq_str :: "jvalue \<Rightarrow> string \<Rightarrow> bool" where
  "eq_str (JStr s) t = (s = t)"
| "eq_str v t = False"

text \<open>
  \<^verbatim>\<open>
  def load_json_key(data, key):
      try:
          result_dict = json.loads(data)  # May raise ValueError
      except ValueError as e:
          raise KeyError from e
      else:
          return result_dict[key]         # May raise KeyError
  \<close>
\<close>

definition load_json_key :: "json_loads \<Rightarrow> string \<Rightarrow> string \<Rightarrow> exn + jvalue" where
  "load_json_key loads data key =
     (case loads data of
        Inl e \<Rightarrow> if isinstance e ValueError then Inl (Exn KeyError []) else Inl e
      | Inr result_dict \<Rightarrow> getitem result_dict key)"

text \<open>
  The statements after the definition:
  \<^verbatim>\<open>
  assert load_json_key('{"foo": "bar"}', 'foo') == 'bar'
  try:
      load_json_key('{"foo": "bar"}', 'does not exist')
      assert False
  except KeyError:
      pass
  try:
      load_json_key('{"foo": bad payload', 'foo')
      assert False
  except KeyError:
      pass
  \<close>
  \<open>expect_KeyError\<close> is the \<open>try\<close> statement, for the call in it.
\<close>

definition expect_KeyError :: "exn + jvalue \<Rightarrow> exn option" where
  "expect_KeyError call =
     (let raised = (case call of
                      Inl e \<Rightarrow> Some e
                    | Inr v \<Rightarrow> (case assert_py False of Inl e \<Rightarrow> Some e | Inr _ \<Rightarrow> None))
      in case raised of
           None \<Rightarrow> None
         | Some e \<Rightarrow> if isinstance e KeyError then None else Some e)"

definition load_json_key_cell :: "json_loads \<Rightarrow> exn option" where
  \<open>load_json_key_cell loads =
     (case load_json_key loads ''{"foo": "bar"}'' ''foo'' of
        Inl e \<Rightarrow> Some e
      | Inr v \<Rightarrow>
          (case assert_py (eq_str v ''bar'') of
             Inl e \<Rightarrow> Some e
           | Inr _ \<Rightarrow>
               (case expect_KeyError (load_json_key loads ''{"foo": "bar"}'' ''does not exist'') of
                  Some e \<Rightarrow> Some e
                | None \<Rightarrow> expect_KeyError (load_json_key loads ''{"foo": bad payload'' ''foo''))))\<close>

text \<open>
  What \<open>divide_json\<close> returns: the quotient, or the object \<open>UNDEFINED\<close>, which the
  notebook makes once with \<open>UNDEFINED = object()\<close>.
\<close>

datatype quotient = Quotient pynum | UNDEFINED

text \<open>
  \<^verbatim>\<open>
  def divide_json(path):
      handle = open(path, 'r+')   # May raise IOError
      try:
          data = handle.read()    # May raise UnicodeDecodeError
          op = json.loads(data)   # May raise ValueError
          value = (
              op['numerator'] /
              op['denominator'])  # May raise ZeroDivisionError
      except ZeroDivisionError as e:
          return UNDEFINED
      else:
          op['result'] = value
          result = json.dumps(op)
          handle.seek(0)
          handle.write(result)    # May raise IOError
          return value
      finally:
          handle.close()          # Always runs
  \<close>
  \<open>json.dumps\<close>, like \<open>json.loads\<close>, is a parameter.  \<open>divide_json_try\<close> is the body
  of the \<open>try\<close>, and \<open>divide_json_else\<close> the \<open>else\<close> block; closing the handle
  changes nothing the model keeps.
\<close>

type_synonym json_dumps = "jvalue \<Rightarrow> string"

definition divide_json_try :: "json_loads \<Rightarrow> handle \<Rightarrow> 'p fs \<Rightarrow> exn + (jvalue \<times> pynum) \<times> handle" where
  "divide_json_try loads handle fs =
     (case read_py handle fs of
        Inl e \<Rightarrow> Inl e
      | Inr (data, handle') \<Rightarrow>
          (case loads data of
             Inl e \<Rightarrow> Inl e
           | Inr op \<Rightarrow>
               (case getitem op ''numerator'' of
                  Inl e \<Rightarrow> Inl e
                | Inr n \<Rightarrow>
                    (case getitem op ''denominator'' of
                       Inl e \<Rightarrow> Inl e
                     | Inr d \<Rightarrow>
                         (case truediv_values n d of
                            Inl e \<Rightarrow> Inl e
                          | Inr v \<Rightarrow> Inr ((op, v), handle'))))))"

fun setitem_value :: "jvalue \<Rightarrow> string \<Rightarrow> jvalue \<Rightarrow> exn + jvalue" where
  "setitem_value (JDict items) key v = Inr (JDict (AList.update key v items))"
| "setitem_value d key v = Inl (Exn TypeError ''object does not support item assignment'')"

definition divide_json_else ::
  "json_dumps \<Rightarrow> jvalue \<Rightarrow> pynum \<Rightarrow> handle \<Rightarrow> 'p fs \<Rightarrow> 'p fs \<times> (exn + quotient)" where
  "divide_json_else dumps op v handle fs =
     (case setitem_value op ''result'' (JNum v) of
        Inl e \<Rightarrow> (fs, Inl e)
      | Inr op' \<Rightarrow>
          (let result = dumps op' in
           case write_py (seek_py handle 0) (Str result) fs of
             ((handle', fs'), Some e) \<Rightarrow> (fs', Inl e)
           | ((handle', fs'), None) \<Rightarrow> (fs', Inr (Quotient v))))"

definition divide_json ::
  "json_loads \<Rightarrow> json_dumps \<Rightarrow> string \<Rightarrow> 'p fs \<Rightarrow> 'p fs \<times> (exn + quotient)" where
  "divide_json loads dumps path fs =
     (case open_py path ModeRPlus fs of
        Inl e \<Rightarrow> (fs, Inl e)
      | Inr (handle, fs0) \<Rightarrow>
          (case divide_json_try loads handle fs0 of
             Inl e \<Rightarrow>
               if isinstance e ZeroDivisionError then (fs0, Inr UNDEFINED) else (fs0, Inl e)
           | Inr ((op, v), handle') \<Rightarrow> divide_json_else dumps op v handle' fs0))"

text \<open>
  \<^verbatim>\<open>
  handle = open(temp_path, 'w')
  handle.write(text)
  handle.close()
  \<close>
\<close>

definition write_file :: "string \<Rightarrow> string \<Rightarrow> 'p fs \<Rightarrow> 'p fs \<times> exn option" where
  "write_file path text fs = with_write path ModeW (Str text) fs"

text \<open>
  The three runs of \<open>divide_json\<close>, each after the file has been written anew:
  \<^verbatim>\<open>
  temp_path = 'random_data.json'
  ... write '{"numerator": 1, "denominator": 10}'
  assert divide_json(temp_path) == 0.1
  ... write '{"numerator": 1, "denominator": 0}'
  assert divide_json(temp_path) is UNDEFINED
  ... write '{"numerator": 1 bad data'
  try:
      divide_json(temp_path)
      assert False
  except ValueError:
      pass
  \<close>
  The literal \<open>0.1\<close> is the double nearest to one tenth.
\<close>

definition temp_path :: string where
  "temp_path = ''random_data.json''"

definition quotient_eq :: "quotient \<Rightarrow> pynum \<Rightarrow> bool" where
  "quotient_eq q x = (case q of Quotient v \<Rightarrow> py_eq v x | UNDEFINED \<Rightarrow> False)"

definition divide_json_cell :: "json_loads \<Rightarrow> json_dumps \<Rightarrow> 'p fs \<Rightarrow> 'p fs \<times> exn option" where
  \<open>divide_json_cell loads dumps fs =
     (case write_file temp_path ''{"numerator": 1, "denominator": 10}'' fs of
        (fs, Some e) \<Rightarrow> (fs, Some e)
      | (fs, None) \<Rightarrow>
     (case divide_json loads dumps temp_path fs of
        (fs, Inl e) \<Rightarrow> (fs, Some e)
      | (fs, Inr q) \<Rightarrow>
     (case assert_py (quotient_eq q (PFloat (round_double (1 / 10)))) of
        Inl e \<Rightarrow> (fs, Some e)
      | Inr _ \<Rightarrow>
     (case write_file temp_path ''{"numerator": 1, "denominator": 0}'' fs of
        (fs, Some e) \<Rightarrow> (fs, Some e)
      | (fs, None) \<Rightarrow>
     (case divide_json loads dumps temp_path fs of
        (fs, Inl e) \<Rightarrow> (fs, Some e)
      | (fs, Inr q) \<Rightarrow>
     (case assert_py (q = UNDEFINED) of
        Inl e \<Rightarrow> (fs, Some e)
      | Inr _ \<Rightarrow>
     (case write_file temp_path ''{"numerator": 1 bad data'' fs of
        (fs, Some e) \<Rightarrow> (fs, Some e)
      | (fs, None) \<Rightarrow>
     (case divide_json loads dumps temp_path fs of
        (fs, Inl e) \<Rightarrow> (fs, if isinstance e ValueError then None else Some e)
      | (fs, Inr q) \<Rightarrow>
          (case assert_py False of
             Inl e \<Rightarrow> (fs, if isinstance e ValueError then None else Some e)
           | Inr _ \<Rightarrow> (fs, None))))))))))\<close>

text \<open>
  The first cell of the notebook:
  \<^verbatim>\<open>
  handle = open('random_data.txt', 'w', encoding='utf-8')
  handle.write('success\nand\nnew\nlines')
  handle.close()
  handle = open('random_data.txt')  # May raise IOError
  try:
      data = handle.read()  # May raise UnicodeDecodeError
  finally:
      handle.close()        # Always runs after try:
  \<close>
  The result is the file system and \<open>data\<close>, or the exception.
\<close>

definition NEWLINE :: char where
  "NEWLINE = CHR 0x0A"

definition finally_cell :: "'p fs \<Rightarrow> 'p fs \<times> (exn + string)" where
  "finally_cell fs =
     (case write_file ''random_data.txt''
             (''success'' @ [NEWLINE] @ ''and'' @ [NEWLINE] @ ''new'' @ [NEWLINE] @ ''lines'') fs of
        (fs, Some e) \<Rightarrow> (fs, Inl e)
      | (fs, None) \<Rightarrow>
          (case open_py ''random_data.txt'' ModeR fs of
             Inl e \<Rightarrow> (fs, Inl e)
           | Inr (handle, fs) \<Rightarrow>
               (case read_py handle fs of
                  Inl e \<Rightarrow> (fs, Inl e)
                | Inr (data, handle') \<Rightarrow> (fs, Inr data))))"

subsection \<open>Reading a text file line by line\<close>

text \<open>
  Iterating over a file opened for reading gives its lines, each with the newline that
  ends it; a last line without a newline is a line too.  The texts the notebooks write
  hold no carriage return, and the translation of a carriage return to a newline that
  text mode does on reading is left out.
\<close>

fun lines_from :: "string \<Rightarrow> string \<Rightarrow> string list" where
  "lines_from cur [] = (if cur = [] then [] else [cur])"
| "lines_from cur (c # cs) =
     (if c = NEWLINE then (cur @ [c]) # lines_from [] cs else lines_from (cur @ [c]) cs)"

definition file_lines :: "string \<Rightarrow> 'p fs \<Rightarrow> exn + string list" where
  "file_lines name fs =
     (case open_py name ModeR fs of
        Inl e \<Rightarrow> Inl e
      | Inr (handle, fs') \<Rightarrow>
          (case read_py handle fs' of
             Inl e \<Rightarrow> Inl e
           | Inr (text, handle') \<Rightarrow> Inr (lines_from [] text)))"

text \<open>Several writes to one open file, one after the other, up to the first that raises.\<close>

fun write_all :: "handle \<Rightarrow> string list \<Rightarrow> 'p fs \<Rightarrow> 'p fs \<times> exn option" where
  "write_all f [] fs = (fs, None)"
| "write_all f (t # ts) fs =
     (case write_py f (Str t) fs of
        ((f', fs'), Some e) \<Rightarrow> (fs', Some e)
      | ((f', fs'), None) \<Rightarrow> write_all f' ts fs')"

section \<open>Item 9: generator expressions for large comprehensions\<close>

text \<open>
  What the cells print.
\<close>

datatype printed_value =
    PrintInts "int list"
  | PrintInt int
  | PrintText string
  | PrintRoot int pyfloat

text \<open>
  \<^verbatim>\<open>
  with open('my_file.txt', 'w') as f:
      for _ in range(10):
          f.write('a' * random.randint(0, 100))
          f.write('\n')
  value = [len(x) for x in open('my_file.txt')]
  print(value)
  \<close>
  \<open>randint i\<close> is what the call of \<open>random.randint(0, 100)\<close> returns in round \<open>i\<close> of
  the loop.
\<close>

definition random_lines :: "(nat \<Rightarrow> int) \<Rightarrow> string list" where
  "random_lines randint =
     concat (map (\<lambda>i. [replicate (nat (randint i)) CHR ''a'', [NEWLINE]]) [0..<10])"

definition write_my_file :: "(nat \<Rightarrow> int) \<Rightarrow> 'p fs \<Rightarrow> 'p fs \<times> exn option" where
  "write_my_file randint fs =
     (case open_py ''my_file.txt'' ModeW fs of
        Inl e \<Rightarrow> (fs, Some e)
      | Inr (f, fs') \<Rightarrow> write_all f (random_lines randint) fs')"

definition line_lengths :: "'p fs \<Rightarrow> exn + int list" where
  "line_lengths fs =
     (case file_lines ''my_file.txt'' fs of
        Inl e \<Rightarrow> Inl e
      | Inr ls \<Rightarrow> Inr (map (\<lambda>x. int (length x)) ls))"

text \<open>
  The cells after it:
  \<^verbatim>\<open>
  it = (len(x) for x in open('my_file.txt'))
  print(it)
  print(next(it))
  print(next(it))
  roots = ((x, x**0.5) for x in it)
  print(next(roots))
  \<close>
  \<open>print(it)\<close> shows the address of the generator object, the argument \<open>shown\<close>; the
  power \<open>x**0.5\<close> is left to the C library, the argument \<open>pow_half\<close>.
\<close>

definition generator_cells ::
  "string \<Rightarrow> (int \<Rightarrow> pyfloat) \<Rightarrow> 'p fs \<Rightarrow> printed_value list \<times> exn option" where
  "generator_cells shown pow_half fs =
     (case line_lengths fs of
        Inl e \<Rightarrow> ([], Some e)
      | Inr lens \<Rightarrow>
          (let it = generator_of lens; out = [PrintText shown] in
           case next_py it of
             Inl e \<Rightarrow> (out, Some e)
           | Inr (x1, it) \<Rightarrow>
               (let out = out @ [PrintInt x1] in
                case next_py it of
                  Inl e \<Rightarrow> (out, Some e)
                | Inr (x2, it) \<Rightarrow>
                    (let out = out @ [PrintInt x2] in
                     case next_py it of
                       Inl e \<Rightarrow> (out, Some e)
                     | Inr (x3, it) \<Rightarrow> (out @ [PrintRoot x3 (pow_half x3)], None)))))"

definition item9_cells ::
  "(nat \<Rightarrow> int) \<Rightarrow> string \<Rightarrow> (int \<Rightarrow> pyfloat) \<Rightarrow> 'p fs \<Rightarrow>
   ('p fs \<times> printed_value list) \<times> exn option" where
  "item9_cells randint shown pow_half fs =
     (case write_my_file randint fs of
        (fs', Some e) \<Rightarrow> ((fs', []), Some e)
      | (fs', None) \<Rightarrow>
          (case line_lengths fs' of
             Inl e \<Rightarrow> ((fs', []), Some e)
           | Inr value \<Rightarrow>
               (case generator_cells shown pow_half fs' of
                  (out, raised) \<Rightarrow> ((fs', PrintInts value # out), raised))))"

section \<open>Item 16: the file of lines\<close>

text \<open>
  \<^verbatim>\<open>
  def index_file(handle):
      offset = 0
      for line in handle:
          if line:
              yield offset
          for letter in line:
              offset += 1
              if letter == ' ':
                  yield offset
  \<close>
  \<open>index_file_letters\<close> is the inner loop: what it yields, and \<open>offset\<close> after it.
\<close>

fun index_file_letters :: "string \<Rightarrow> int \<Rightarrow> int list \<times> int" where
  "index_file_letters [] offset = ([], offset)"
| "index_file_letters (letter # rest) offset =
     (let offset = offset + 1;
          (yielded, final) = index_file_letters rest offset
      in ((if letter = CHR '' '' then [offset] else []) @ yielded, final))"

fun index_file_lines :: "string list \<Rightarrow> int \<Rightarrow> int list" where
  "index_file_lines [] offset = []"
| "index_file_lines (line # rest) offset =
     (let (yielded, offset') = index_file_letters line offset
      in (if line \<noteq> [] then [offset] else []) @ yielded @ index_file_lines rest offset')"

definition index_file :: "string list \<Rightarrow> int generator" where
  "index_file handle_lines = generator_of (index_file_lines handle_lines 0)"

text \<open>\<open>islice(it, 0, n)\<close>: the first \<open>n\<close> values of the generator.\<close>

fun islice :: "'a generator \<Rightarrow> nat \<Rightarrow> 'a generator" where
  "islice g 0 = Return"
| "islice Return (Suc n) = Return"
| "islice (Yield v g) (Suc n) = Yield v (islice g n)"

text \<open>
  Example 6:
  \<^verbatim>\<open>
  with open('address.txt', 'w') as f:
      f.write(address_lines)
  with open('address.txt', 'r') as f:
      it = index_file(f)
      results = islice(it, 0, 3)
      print(list(results))
  \<close>
\<close>

definition address_lines :: string where
  "address_lines =
     ''Four score and seven years'' @ [NEWLINE] @
     ''ago our fathers brought forth on this'' @ [NEWLINE] @
     ''continent a new nation, conceived in liberty,'' @ [NEWLINE] @
     ''and dedicated to the proposition that all men'' @ [NEWLINE] @
     ''are created equal.''"

definition index_file_cell :: "'p fs \<Rightarrow> ('p fs \<times> printed_value list) \<times> exn option" where
  "index_file_cell fs =
     (case with_write ''address.txt'' ModeW (Str address_lines) fs of
        (fs', Some e) \<Rightarrow> ((fs', []), Some e)
      | (fs', None) \<Rightarrow>
          (case file_lines ''address.txt'' fs' of
             Inl e \<Rightarrow> ((fs', []), Some e)
           | Inr ls \<Rightarrow> ((fs', [PrintInts (list_py (islice (index_file ls) 3))]), None)))"

section \<open>Item 43: contextlib and with statements\<close>

text \<open>
  Example 7, the one statement of the notebook that opens a file:
  \<^verbatim>\<open>
  with open('my_output.txt', 'w') as handle:
      handle.write('This is some data!')
  \<close>
\<close>

definition my_output_cell :: "'p fs \<Rightarrow> 'p fs \<times> exn option" where
  "my_output_cell fs = with_write ''my_output.txt'' ModeW (Str ''This is some data!'') fs"

section \<open>The notebooks and the working directory\<close>

text \<open>
  The notebooks of the thirteen source files, by the item of the book each one
  illustrates; two files hold more than one notebook (those of Items 46 and 47 follow
  Item 3, and that of Item 57 follows Item 43).  They run in separate kernels; what one
  run can leave for another is the files in the working directory.
\<close>

datatype notebook =
    Item3 | Item9 | Item13 | Item16 | Item18 | Item20 | Item21 | Item30 | Item37
  | Item43 | Item44 | Item46 | Item47 | Item51 | Item52 | Item57

text \<open>The names of the files a notebook opens, as its source spells them.\<close>

fun files_of :: "notebook \<Rightarrow> string list" where
  "files_of Item3 = [''random.bin'']"
| "files_of Item9 = [''my_file.txt'']"
| "files_of Item13 = [''random_data.txt'', ''random_data.json'']"
| "files_of Item16 = [''address.txt'']"
| "files_of Item43 = [''my_output.txt'']"
| "files_of Item44 = [''game_state.bin'']"
| "files_of n = []"

text \<open>
  What a run takes from outside the notebook and the working directory: the bytes of
  \<open>os.urandom\<close>, the numbers of \<open>random.randint\<close>, the address shown for a generator
  object, and the library functions the model leaves open.
\<close>

record inputs =
  in_urandom1 :: "nat list"
  in_urandom2 :: "nat list"
  in_randint :: "nat \<Rightarrow> int"
  in_shown :: string
  in_pow_half :: "int \<Rightarrow> pyfloat"
  in_loads :: json_loads
  in_dumps :: json_dumps

text \<open>
  What a run shows of the files: the values printed from what was read, the printed
  attribute dictionaries, the log, and the exception that ended the run, if any.
\<close>

record observed =
  values_printed :: "printed_value list"
  dicts_printed :: "(string \<times> int) list list"
  log_written :: log
  uncaught :: "exn option"

definition nothing_observed :: observed where
  "nothing_observed = \<lparr>values_printed = [], dicts_printed = [], log_written = [], uncaught = None\<rparr>"

text \<open>
  Item 13 runs its three cells in order; a cell that raises ends the run.
\<close>

definition item13_cells :: "json_loads \<Rightarrow> json_dumps \<Rightarrow> 'p fs \<Rightarrow> 'p fs \<times> exn option" where
  "item13_cells lds dps fs =
     (case finally_cell fs of
        (fs', Inl e) \<Rightarrow> (fs', Some e)
      | (fs', Inr data) \<Rightarrow>
          (case load_json_key_cell lds of
             Some e \<Rightarrow> (fs', Some e)
           | None \<Rightarrow> divide_json_cell lds dps fs'))"

text \<open>
  The part of a notebook's run that goes through the working directory: the cells
  that open files, in the notebook's order, from the directory as the run finds it.
  Ten notebooks open no file.
\<close>

fun run_files :: "notebook \<Rightarrow> inputs \<Rightarrow> pickled fs \<Rightarrow> observed \<times> pickled fs" where
  "run_files Item3 inp fs =
     (case bytes_cell (in_urandom1 inp) (in_urandom2 inp) fs [] of
        ((fs', lg), raised) \<Rightarrow> (nothing_observed\<lparr>log_written := lg, uncaught := raised\<rparr>, fs'))"
| "run_files Item9 inp fs =
     (case item9_cells (in_randint inp) (in_shown inp) (in_pow_half inp) fs of
        ((fs', out), raised) \<Rightarrow>
          (nothing_observed\<lparr>values_printed := out, uncaught := raised\<rparr>, fs'))"
| "run_files Item13 inp fs =
     (case item13_cells (in_loads inp) (in_dumps inp) fs of
        (fs', raised) \<Rightarrow> (nothing_observed\<lparr>uncaught := raised\<rparr>, fs'))"
| "run_files Item16 inp fs =
     (case index_file_cell fs of
        ((fs', out), raised) \<Rightarrow>
          (nothing_observed\<lparr>values_printed := out, uncaught := raised\<rparr>, fs'))"
| "run_files Item43 inp fs =
     (case my_output_cell fs of
        (fs', raised) \<Rightarrow> (nothing_observed\<lparr>uncaught := raised\<rparr>, fs'))"
| "run_files Item44 inp fs =
     (case notebook44_run fs of
        (s, raised) \<Rightarrow>
          (\<lparr>values_printed = [], dicts_printed = printed s, log_written = logged44 s,
            uncaught = raised\<rparr>,
           files s))"
| "run_files n inp fs = (nothing_observed, fs)"

text \<open>Inputs for the examples.\<close>

definition example_inputs :: inputs where
  "example_inputs =
     \<lparr>in_urandom1 = [1, 2, 3, 4, 5, 6, 7, 8, 9, 10],
      in_urandom2 = [10, 9, 8, 7, 6, 5, 4, 3, 2, 1],
      in_randint = (\<lambda>i. int i),
      in_shown = ''<generator object <genexpr>>'',
      in_pow_half = (\<lambda>x. Finite 0),
      in_loads = loads_examples,
      in_dumps = (\<lambda>v. ''{}'')\<rparr>"

section \<open>Properties of the generator (Item 16)\<close>

lemma index_words_loop_acc:
  "index_words_loop ps result = result @ list_py (index_words_iter_loop ps)"
proof (induction ps arbitrary: result)
  case Nil
  show ?case by simp
next
  case (Cons p ps)
  obtain index letter where p: "p = (index, letter)" by (cases p)
  show ?case
    unfolding p by (simp add: Cons.IH)
qed

text \<open>
  C8.  For every string \<open>text\<close>, \<open>list(index_words_iter(text))\<close> equals
  \<open>index_words(text)\<close>.
\<close>

theorem C8_index_words_iter_eq: "list_py (index_words_iter text) = index_words text"
  by (simp add: index_words_iter_def index_words_def Let_def index_words_loop_acc)

section \<open>Properties of the root exception (Item 51)\<close>


lemma issubclass_NegativeDensityError_InvalidDensityError:
  "issubclass NegativeDensityError InvalidDensityError"
  by (simp add: issubclass.simps)

text \<open>
  C5.  Every exception \<open>my_module.determine_weight\<close> raises is an instance of the root
  class \<open>Error\<close>; it raises \<open>InvalidDensityError\<close> exactly when \<open>density <= 0\<close>; a
  caller with the handlers \<open>except my_module.InvalidDensityError\<close> then
  \<open>except my_module.Error\<close> takes the first of them for that exception; and the call
  \<open>my_module.determine_weight(1, -1)\<close> under those handlers leaves \<open>weight\<close> at 0.
\<close>

theorem C5_root_exception_insulates:
  "(\<forall>volume density e. my_module_determine_weight volume density = Inl e \<longrightarrow>
      isinstance e Error \<and> exn_class e = InvalidDensityError \<and>
      branch_taken e = ExceptInvalidDensityError)
   \<and> (\<forall>volume density.
        (\<exists>e. my_module_determine_weight volume density = Inl e) = (density \<le> 0))
   \<and> issubclass InvalidDensityError Error
   \<and> (\<forall>volume density. density \<le> 0 \<longrightarrow>
        example4 my_module_determine_weight volume density =
          (\<lparr>weight = WInt 0, logged = []\<rparr>, None))
   \<and> weight (fst (example4 my_module_determine_weight 1 (-1))) = WInt 0
   \<and> weight_eq_0 (weight (fst (example4 my_module_determine_weight 1 (-1))))"
  by (auto simp: my_module_determine_weight_def isinstance_def branch_taken_def
        example4_def caller_try_def caller_handlers_def issubclass.simps
      split: if_splits)

theorem C5_root_exception_insulates_witness:
  "my_module_determine_weight 1 (-1) = Inl (Exn InvalidDensityError ''Density must be positive'')
   \<and> isinstance (Exn InvalidDensityError ''Density must be positive'') Error
   \<and> branch_taken (Exn InvalidDensityError ''Density must be positive'') = ExceptInvalidDensityError
   \<and> (-1::int) \<le> 0
   \<and> example4 my_module_determine_weight 1 (-1) = (\<lparr>weight = WInt 0, logged = []\<rparr>, None)"
proof -
  have raised: "my_module_determine_weight 1 (-1) =
      Inl (Exn InvalidDensityError ''Density must be positive'')"
    by (simp add: my_module_determine_weight_def)
  have neg: "(-1::int) \<le> 0" by simp
  from C5_root_exception_insulates raised neg show ?thesis by blast
qed

section \<open>Properties of the numbers\<close>



lemma bitlen_pos: "0 < n \<Longrightarrow> 0 < bitlen n"
  using bitlen_nonneg[of n] bitlen_eq_zero_iff[of n] by linarith

lemma ilog2_of_int:
  assumes n: "0 < n"
  shows "ilog2 (of_int n) = bitlen n - 1" and "pow2 (bitlen n - 1) \<le> of_int n"
proof -
  have b: "2 ^ nat (bitlen n - 1) \<le> n" using bitlen_bounds[OF n] by simp
  have bl: "0 < bitlen n" using n by (rule bitlen_pos)
  have "pow2 (bitlen n - 1) = of_int (2 ^ nat (bitlen n - 1))" using bl by (simp add: pow2_def)
  also have "\<dots> \<le> of_int n" using b by (simp only: of_int_le_iff)
  finally show le: "pow2 (bitlen n - 1) \<le> of_int n" .
  have b1: "bitlen 1 = 1" by (simp add: bitlen_def floorlog_def)
  show "ilog2 (of_int n) = bitlen n - 1" using le by (simp add: ilog2_def b1)
qed






lemma float_of_int_0: "float_of_int 0 = Inr (Finite 0)"
  by (simp add: float_of_int_def round_double_def)

lemma float_of_int_1: "float_of_int 1 = Inr (Finite 1)"
  by (simp add: float_of_int_def round_double_def ilog2_def pow2_def round_half_even_def Let_def bitlen_def floorlog_def)




lemma convert_to_double_bool: "convert_to_double (PBool b) = Inr (Finite (if b then 1 else 0))"
  by (simp add: float_of_int_0 float_of_int_1)












section \<open>Properties of the keyword-only division (Item 21)\<close>


lemma issubclass_ZeroDivisionError_OverflowError [simp]:
  "\<not> issubclass ZeroDivisionError OverflowError" "issubclass ZeroDivisionError ZeroDivisionError"
  "issubclass OverflowError OverflowError"
  by (simp_all add: issubclass.simps)








section \<open>Properties of the default argument (Item 20)\<close>

lemma issubclass_JSONDecodeError_ValueError: "issubclass JSONDecodeError ValueError"
  by (simp add: issubclass.simps)

lemma decode_wrong_fails:
  assumes "loads data = Inl e" "isinstance e ValueError"
  shows "decode_wrong loads shared data None h = Inr (shared, h)"
  using assms by (simp add: decode_wrong_def)

lemma decode_fails:
  assumes "loads data = Inl e" "isinstance e ValueError"
  shows "decode loads data None h = Inr (ORef (length h), h @ [[]])"
  using assms by (simp add: decode_def new_dict_def)

lemma example5_result:
  assumes "loads ''bad data'' = Inl e1" "isinstance e1 ValueError"
    and "loads ''also bad'' = Inl e2" "isinstance e2 ValueError"
  shows "example5 loads h0 =
           Inr (ORef (length h0), ORef (length h0),
                h0 @ [[(''stuff'', JNum (PInt 5)), (''meep'', JNum (PInt 1))]])"
  using assms
  by (simp add: example5_def def_decode_wrong_def new_dict_def decode_wrong_def assert_py_def)

lemma example8_result:
  assumes "loads ''bad data'' = Inl e1" "isinstance e1 ValueError"
    and "loads ''also bad'' = Inl e2" "isinstance e2 ValueError"
  shows "example8 loads h0 =
           Inr (ORef (length h0), ORef (Suc (length h0)),
                h0 @ [[(''stuff'', JNum (PInt 5))], [(''meep'', JNum (PInt 1))]])"
  using assms
  by (simp add: example8_def decode_def new_dict_def nth_append list_update_append)

lemma loads_examples_bad:
  "loads_examples ''bad data'' = Inl (Exn JSONDecodeError ''Expecting value'')"
  "loads_examples ''also bad'' = Inl (Exn JSONDecodeError ''Expecting value'')"
  "isinstance (Exn JSONDecodeError ''Expecting value'') ValueError"
  by (simp_all add: loads_examples_def isinstance_def issubclass.simps)

text \<open>
  C10.  In the wrong \<open>decode\<close> (\<open>default={}\<close>) every call whose data fails to parse
  returns the one shared default dictionary and leaves the heap as it is: after
  \<open>foo = decode('bad data'); foo['stuff'] = 5\<close> the call \<open>decode('also bad')\<close>
  returns a dictionary that already holds \<open>'stuff'\<close>, and \<open>foo is bar\<close>.  In the
  fixed \<open>decode\<close> (\<open>default=None\<close>) each failing call returns a new empty
  dictionary, so that the two results are separate: \<open>{'stuff': 5}\<close> and
  \<open>{'meep': 1}\<close>.
\<close>

theorem C10_default_dictionary:
  "(\<forall>loads shared data h e. loads data = Inl e \<and> isinstance e ValueError \<longrightarrow>
       decode_wrong loads shared data None h = Inr (shared, h))
   \<and> (\<forall>loads h0 e1 e2.
         loads ''bad data'' = Inl e1 \<and> isinstance e1 ValueError \<and>
         loads ''also bad'' = Inl e2 \<and> isinstance e2 ValueError \<longrightarrow>
         (let (shared, h1) = def_decode_wrong h0 in
          \<exists>foo h2 h3 bar.
            decode_wrong loads shared ''bad data'' None h1 = Inr (foo, h2) \<and>
            setitem foo ''stuff'' (JNum (PInt 5)) h2 = Inr h3 \<and>
            decode_wrong loads shared ''also bad'' None h3 = Inr (bar, h3) \<and>
            is_same foo bar \<and>
            deref h3 bar = Some [(''stuff'', JNum (PInt 5))]) \<and>
         (\<exists>foo bar h.
            example5 loads h0 = Inr (foo, bar, h) \<and> is_same foo bar \<and>
            deref h foo = Some [(''stuff'', JNum (PInt 5)), (''meep'', JNum (PInt 1))] \<and>
            deref h bar = Some [(''stuff'', JNum (PInt 5)), (''meep'', JNum (PInt 1))]))
   \<and> (\<forall>loads data h e. loads data = Inl e \<and> isinstance e ValueError \<longrightarrow>
         (\<exists>fresh. decode loads data None h = Inr (ORef fresh, h @ [[]]) \<and>
                  deref h (ORef fresh) = None \<and>
                  deref (h @ [[]]) (ORef fresh) = Some []))
   \<and> (\<forall>loads h0 e1 e2.
         loads ''bad data'' = Inl e1 \<and> isinstance e1 ValueError \<and>
         loads ''also bad'' = Inl e2 \<and> isinstance e2 ValueError \<longrightarrow>
         (\<exists>foo bar h.
            example8 loads h0 = Inr (foo, bar, h) \<and> \<not> is_same foo bar \<and>
            deref h foo = Some [(''stuff'', JNum (PInt 5))] \<and>
            deref h bar = Some [(''meep'', JNum (PInt 1))]))"
proof (intro conjI allI impI)
  fix loads :: json_loads and shared data h e
  assume "loads data = Inl e \<and> isinstance e ValueError"
  then show "decode_wrong loads shared data None h = Inr (shared, h)"
    by (simp add: decode_wrong_fails)
next
  fix loads :: json_loads and h0 e1 e2
  assume a: "loads ''bad data'' = Inl e1 \<and> isinstance e1 ValueError \<and>
         loads ''also bad'' = Inl e2 \<and> isinstance e2 ValueError"
  then show "let (shared, h1) = def_decode_wrong h0 in
          \<exists>foo h2 h3 bar.
            decode_wrong loads shared ''bad data'' None h1 = Inr (foo, h2) \<and>
            setitem foo ''stuff'' (JNum (PInt 5)) h2 = Inr h3 \<and>
            decode_wrong loads shared ''also bad'' None h3 = Inr (bar, h3) \<and>
            is_same foo bar \<and>
            deref h3 bar = Some [(''stuff'', JNum (PInt 5))]"
    by (simp add: def_decode_wrong_def new_dict_def decode_wrong_def)
  from a show "\<exists>foo bar h.
            example5 loads h0 = Inr (foo, bar, h) \<and> is_same foo bar \<and>
            deref h foo = Some [(''stuff'', JNum (PInt 5)), (''meep'', JNum (PInt 1))] \<and>
            deref h bar = Some [(''stuff'', JNum (PInt 5)), (''meep'', JNum (PInt 1))]"
    using example5_result[of loads e1 e2 h0] by simp
next
  fix loads :: json_loads and data h e
  assume "loads data = Inl e \<and> isinstance e ValueError"
  then show "\<exists>fresh. decode loads data None h = Inr (ORef fresh, h @ [[]]) \<and>
                  deref h (ORef fresh) = None \<and>
                  deref (h @ [[]]) (ORef fresh) = Some []"
    by (simp add: decode_fails)
next
  fix loads :: json_loads and h0 e1 e2
  assume "loads ''bad data'' = Inl e1 \<and> isinstance e1 ValueError \<and>
         loads ''also bad'' = Inl e2 \<and> isinstance e2 ValueError"
  then show "\<exists>foo bar h.
            example8 loads h0 = Inr (foo, bar, h) \<and> \<not> is_same foo bar \<and>
            deref h foo = Some [(''stuff'', JNum (PInt 5))] \<and>
            deref h bar = Some [(''meep'', JNum (PInt 1))]"
    using example8_result[of loads e1 e2 h0] by (simp add: nth_append)
qed

theorem C10_default_dictionary_witness:
  "loads_examples ''bad data'' = Inl (Exn JSONDecodeError ''Expecting value'')
   \<and> loads_examples ''also bad'' = Inl (Exn JSONDecodeError ''Expecting value'')
   \<and> isinstance (Exn JSONDecodeError ''Expecting value'') ValueError
   \<and> decode_wrong loads_examples (ORef 0) ''also bad'' None [[(''stuff'', JNum (PInt 5))]] =
       Inr (ORef 0, [[(''stuff'', JNum (PInt 5))]])
   \<and> (\<exists>foo bar h. example5 loads_examples [] = Inr (foo, bar, h) \<and> is_same foo bar \<and>
         deref h bar = Some [(''stuff'', JNum (PInt 5)), (''meep'', JNum (PInt 1))])
   \<and> (\<exists>fresh. decode loads_examples ''bad data'' None [] = Inr (ORef fresh, [[]]))
   \<and> (\<exists>foo bar h. example8 loads_examples [] = Inr (foo, bar, h) \<and> \<not> is_same foo bar \<and>
         deref h foo = Some [(''stuff'', JNum (PInt 5))] \<and>
         deref h bar = Some [(''meep'', JNum (PInt 1))])"
proof -
  note bad = loads_examples_bad
  have hyp: "loads_examples ''bad data'' = Inl (Exn JSONDecodeError ''Expecting value'') \<and>
      isinstance (Exn JSONDecodeError ''Expecting value'') ValueError \<and>
      loads_examples ''also bad'' = Inl (Exn JSONDecodeError ''Expecting value'') \<and>
      isinstance (Exn JSONDecodeError ''Expecting value'') ValueError"
    using bad by simp
  have hyp_bad: "loads_examples ''bad data'' = Inl (Exn JSONDecodeError ''Expecting value'') \<and>
      isinstance (Exn JSONDecodeError ''Expecting value'') ValueError"
    and hyp_also: "loads_examples ''also bad'' = Inl (Exn JSONDecodeError ''Expecting value'') \<and>
      isinstance (Exn JSONDecodeError ''Expecting value'') ValueError"
    using bad by simp_all
  have w1: "decode_wrong loads_examples (ORef 0) ''also bad'' None [[(''stuff'', JNum (PInt 5))]] =
       Inr (ORef 0, [[(''stuff'', JNum (PInt 5))]])"
    by (rule C10_default_dictionary[THEN conjunct1, rule_format,
          where loads = loads_examples and data = "''also bad''", OF hyp_also])
  have w2: "\<exists>foo bar h. example5 loads_examples [] = Inr (foo, bar, h) \<and> is_same foo bar \<and>
         deref h foo = Some [(''stuff'', JNum (PInt 5)), (''meep'', JNum (PInt 1))] \<and>
         deref h bar = Some [(''stuff'', JNum (PInt 5)), (''meep'', JNum (PInt 1))]"
    by (rule C10_default_dictionary[THEN conjunct2, THEN conjunct1, rule_format,
          where loads = loads_examples, OF hyp, THEN conjunct2])
  have w3: "\<exists>fresh. decode loads_examples ''bad data'' None [] = Inr (ORef fresh, [] @ [[]]) \<and>
                  deref [] (ORef fresh) = None \<and>
                  deref ([] @ [[]]) (ORef fresh) = Some []"
    by (rule C10_default_dictionary[THEN conjunct2, THEN conjunct2, THEN conjunct1, rule_format,
          where loads = loads_examples and data = "''bad data''", OF hyp_bad])
  have w4: "\<exists>foo bar h. example8 loads_examples [] = Inr (foo, bar, h) \<and> \<not> is_same foo bar \<and>
         deref h foo = Some [(''stuff'', JNum (PInt 5))] \<and>
         deref h bar = Some [(''meep'', JNum (PInt 1))]"
    by (rule C10_default_dictionary[THEN conjunct2, THEN conjunct2, THEN conjunct2, rule_format,
          where loads = loads_examples, OF hyp])
  from w3 have w3': "\<exists>fresh. decode loads_examples ''bad data'' None [] = Inr (ORef fresh, [[]])"
    by auto
  from w2 have w2': "\<exists>foo bar h. example5 loads_examples [] = Inr (foo, bar, h) \<and> is_same foo bar \<and>
         deref h bar = Some [(''stuff'', JNum (PInt 5)), (''meep'', JNum (PInt 1))]"
    by blast
  show ?thesis
    by (intro conjI bad w1 w2' w3' w4)
qed

section \<open>Properties of the bucket (Item 30)\<close>

lemma py_int_ops [simp]:
  "py_sub (PInt a) (PInt b) = Inr (PInt (a - b))"
  "py_add (PInt a) (PInt b) = Inr (PInt (a + b))"
  "py_lt (PInt a) (PInt b) \<longleftrightarrow> a < b"
  "py_ge (PInt a) (PInt b) \<longleftrightarrow> b \<le> a"
  "py_eq (PInt a) (PInt b) \<longleftrightarrow> a = b"
  by (auto simp: py_sub_def py_add_def py_lt_def py_ge_def py_eq_def)

lemma ieee_add_NaN [simp]: "ieee_add x NaN = NaN" "ieee_sub x NaN = NaN"
  by (cases x; simp add: ieee_sub_def)+

lemma float_NaN [simp]: "\<not> float_eq x NaN" "\<not> float_lt x NaN"
  by (cases x; simp)+

lemma py_NaN [simp]:
  "\<not> py_eq (PFloat NaN) y" "\<not> py_eq x (PFloat NaN)"
  "\<not> py_lt (PFloat NaN) y" "\<not> py_lt x (PFloat NaN)"
  "\<not> py_ge (PFloat NaN) y" "\<not> py_ge x (PFloat NaN)"
  by (simp_all add: py_eq_def py_lt_def py_ge_def)

lemma py_sub_NaN:
  "py_sub x (PFloat NaN) = Inr v \<Longrightarrow> v = PFloat NaN"
  by (auto simp: py_sub_def split: sum.splits option.splits prod.splits)

lemma py_add_NaN:
  "py_add x (PFloat NaN) = Inr v \<Longrightarrow> v = PFloat NaN"
  by (auto simp: py_add_def split: sum.splits option.splits prod.splits)

lemma py_sub_0_NaN [simp]: "py_sub (PInt 0) (PFloat NaN) = Inr (PFloat NaN)"
  "py_add (PInt 0) (PFloat NaN) = Inr (PFloat NaN)"
  by (simp_all add: py_sub_def py_add_def float_of_int_0)


lemma quota_setter_period:
  "quota_setter b amount = Inr b' \<Longrightarrow> period_delta b' = period_delta b"
  by (auto simp: quota_setter_def assert_py_def split: sum.splits if_splits)

lemma quota_setter_reset_time:
  "quota_setter b amount = Inr b' \<Longrightarrow> reset_time b' = reset_time b"
  by (auto simp: quota_setter_def assert_py_def split: sum.splits if_splits)

lemma fill_period: "period_delta (fst (fill b amount now)) = period_delta b"
  by (auto simp: fill_def quota_iadd_def dest!: quota_setter_period split: sum.splits if_splits)

lemma deduct_period: "period_delta (fst (deduct b amount now)) = period_delta b"
  by (auto simp: deduct_def quota_isub_def dest!: quota_setter_period split: sum.splits if_splits)

lemma apply_op_period: "period_delta (apply_op b op) = period_delta b"
  by (cases op) (auto simp: fill_period deduct_period dest!: quota_setter_period split: sum.splits)

lemma run_ops_period: "period_delta (run_ops b ops) = period_delta b"
  unfolding run_ops_def by (induction ops arbitrary: b) (simp_all add: apply_op_period)

lemma bucket_invariant_period_delta:
  "Q (timedelta_seconds period) \<Longrightarrow> bucket_invariant period (\<lambda>b. Q (period_delta b))"
  unfolding bucket_invariant_def
  by (auto simp: fill_period deduct_period Bucket_init_def dest!: quota_setter_period)

lemma bucket_invariant_reachable:
  assumes "bucket_invariant period P"
  shows "P (run_ops (Bucket_init period now) ops)"
proof -
  have step: "P (apply_op b op)" if "P b" for b op
    using assms that unfolding bucket_invariant_def
    by (cases op) (auto split: sum.splits)
  have "P b \<Longrightarrow> P (foldl apply_op b ops)" for b
    by (induction ops arbitrary: b) (simp_all add: step)
  moreover have "P (Bucket_init period now)"
    using assms unfolding bucket_invariant_def by blast
  ultimately show ?thesis unfolding run_ops_def by blast
qed


lemma quota_setter_NaN:
  "quota_setter (Bucket_init period now) (PFloat NaN) =
     Inr ((Bucket_init period now)\<lparr>quota_consumed := PFloat NaN\<rparr>)"
  by (simp add: quota_setter_def Bucket_init_def assert_py_def)

lemma quota_law_NaN: "quota_consumed b = PFloat NaN \<Longrightarrow> \<not> quota_law b"
  by (auto simp: quota_law_def quota_def split: sum.splits dest!: py_sub_NaN)

lemma range_law_NaN: "quota_consumed b = PFloat NaN \<Longrightarrow> \<not> range_law b"
  by (simp add: range_law_def)

lemma quota_law_init: "quota_law (Bucket_init period now)"
  by (simp add: quota_law_def quota_def Bucket_init_def)

lemma range_law_init: "range_law (Bucket_init period now)"
  by (simp add: range_law_def Bucket_init_def)

lemma run_SetQuota_NaN:
  "run_ops (Bucket_init period now) [SetQuota (PFloat NaN)] =
     (Bucket_init period now)\<lparr>quota_consumed := PFloat NaN\<rparr>"
  by (simp add: run_ops_def quota_setter_NaN)

lemma quota_law_not_invariant: "\<not> bucket_invariant period quota_law"
proof
  assume "bucket_invariant period quota_law"
  then have "quota_law (run_ops (Bucket_init period 0) [SetQuota (PFloat NaN)])"
    by (rule bucket_invariant_reachable)
  then show False by (simp add: run_SetQuota_NaN quota_law_NaN)
qed


lemma fill_example:
  "fill (Bucket_init 60 0) (PInt 100) 1 =
     (\<lparr>period_delta = 60000000, reset_time = 0, max_quota = PInt 100, quota_consumed = PInt 0\<rparr>,
      None)"
  by (simp add: fill_def quota_iadd_def Bucket_init_def timedelta_seconds_def quota_setter_def
        quota_def assert_py_def)

lemma deduct_example_1:
  "deduct \<lparr>period_delta = 60000000, reset_time = 0, max_quota = PInt 100, quota_consumed = PInt 0\<rparr>
       (PInt 50) 2 =
     (\<lparr>period_delta = 60000000, reset_time = 0, max_quota = PInt 100, quota_consumed = PInt 50\<rparr>,
      Inr True)"
  by (simp add: deduct_def quota_isub_def quota_setter_def quota_def assert_py_def)

lemma deduct_example_2:
  "deduct \<lparr>period_delta = 60000000, reset_time = 0, max_quota = PInt 100, quota_consumed = PInt 50\<rparr>
       (PInt 10) 3 =
     (\<lparr>period_delta = 60000000, reset_time = 0, max_quota = PInt 100, quota_consumed = PInt 110\<rparr>,
      Inr True)"
  by (simp add: deduct_def quota_isub_def quota_setter_def quota_def assert_py_def)

lemma run_fill_deduct:
  "run_ops (Bucket_init 60 0) [Fill (PInt 100) 1, Deduct (PInt 50) 2, Deduct (PInt 10) 3] =
     \<lparr>period_delta = 60000000, reset_time = 0, max_quota = PInt 100, quota_consumed = PInt 110\<rparr>"
  by (simp add: run_ops_def fill_example deduct_example_1 deduct_example_2)

lemma quota_setter_negative:
  "quota_setter (Bucket_init period now) (PInt (- 5)) =
     Inr ((Bucket_init period now)\<lparr>quota_consumed := PInt 5\<rparr>)"
  by (simp add: quota_setter_def Bucket_init_def assert_py_def)

lemma run_SetQuota_negative:
  "run_ops (Bucket_init period now) [SetQuota (PInt (- 5))] =
     (Bucket_init period now)\<lparr>quota_consumed := PInt 5\<rparr>"
  by (simp add: run_ops_def quota_setter_negative)

lemma range_law_not_invariant: "\<not> bucket_invariant period range_law"
proof
  assume "bucket_invariant period range_law"
  then have "range_law (run_ops (Bucket_init period 0) [SetQuota (PInt (- 5))])"
    by (rule bucket_invariant_reachable)
  then show False
    unfolding run_SetQuota_negative by (simp add: range_law_def Bucket_init_def)
qed

text \<open>
  C1, as amended.  Neither of the two predicates on the bucket's quota is established
  by the constructor and preserved by every \<open>fill\<close>, \<open>deduct\<close> and assignment to
  \<open>quota\<close>.  Both hold of a new bucket.  \<open>quota == max_quota - quota_consumed\<close> is
  false after \<open>bucket.quota = float('nan')\<close>, which stores a NaN in \<open>quota_consumed\<close>.
  \<open>max_quota >= quota_consumed >= 0\<close> is false after \<open>fill(bucket, 100)\<close>,
  \<open>deduct(bucket, 50)\<close>, \<open>deduct(bucket, 10)\<close> within the period, which leaves
  \<open>quota_consumed\<close> at 110, and after \<open>bucket.quota = -5\<close>.  What every operation
  does preserve is a predicate on \<open>period_delta\<close>, the attribute none of them assigns:
  \<open>period_delta == timedelta(seconds=period)\<close> holds of the bucket made by
  \<open>Bucket(period)\<close> after any sequence of operations, whatever the amounts.
\<close>

theorem C1_bucket_invariants:
  "(\<forall>period now. quota_law (Bucket_init period now) \<and> range_law (Bucket_init period now))
   \<and> (\<forall>period now. \<not> quota_law (run_ops (Bucket_init period now) [SetQuota (PFloat NaN)]))
   \<and> \<not> range_law
         (run_ops (Bucket_init 60 0) [Fill (PInt 100) 1, Deduct (PInt 50) 2, Deduct (PInt 10) 3])
   \<and> (\<forall>period now. \<not> range_law (run_ops (Bucket_init period now) [SetQuota (PInt (- 5))]))
   \<and> (\<forall>period. \<not> bucket_invariant period quota_law)
   \<and> (\<forall>period. \<not> bucket_invariant period range_law)
   \<and> (\<forall>period. bucket_invariant period (period_law period))
   \<and> (\<forall>period now ops. period_law period (run_ops (Bucket_init period now) ops))"
proof (intro conjI allI)
  fix period now
  show "\<not> quota_law (run_ops (Bucket_init period now) [SetQuota (PFloat NaN)])"
    by (simp add: run_SetQuota_NaN quota_law_NaN)
  show "\<not> range_law (run_ops (Bucket_init period now) [SetQuota (PInt (- 5))])"
    unfolding run_SetQuota_negative by (simp add: range_law_def Bucket_init_def)
  show "bucket_invariant period (period_law period)"
    unfolding period_law_def by (rule bucket_invariant_period_delta) simp
  fix ops
  show "period_law period (run_ops (Bucket_init period now) ops)"
    by (simp add: period_law_def run_ops_period Bucket_init_def)
next
  show "\<not> range_law
         (run_ops (Bucket_init 60 0) [Fill (PInt 100) 1, Deduct (PInt 50) 2, Deduct (PInt 10) 3])"
    by (simp add: run_fill_deduct range_law_def)
qed (simp_all add: quota_law_init range_law_init quota_law_not_invariant range_law_not_invariant)

theorem C1_bucket_invariants_witness:
  "quota_law (Bucket_init 60 0)
   \<and> run_ops (Bucket_init 60 0) [SetQuota (PFloat NaN)] =
       \<lparr>period_delta = 60000000, reset_time = 0, max_quota = PInt 0,
        quota_consumed = PFloat NaN\<rparr>
   \<and> \<not> quota_law (run_ops (Bucket_init 60 0) [SetQuota (PFloat NaN)])
   \<and> range_law (Bucket_init 60 0)
   \<and> \<not> range_law
         (run_ops (Bucket_init 60 0) [Fill (PInt 100) 1, Deduct (PInt 50) 2, Deduct (PInt 10) 3])
   \<and> period_law 60 (Bucket_init 60 0)
   \<and> period_law 60 (fst (fill (Bucket_init 60 0) (PFloat NaN) 1))
   \<and> period_law 60 (fst (deduct (Bucket_init 60 0) (PInt 99) 2))
   \<and> quota_setter (Bucket_init 60 0) (PInt 100) =
       Inr \<lparr>period_delta = 60000000, reset_time = 0, max_quota = PInt 100,
            quota_consumed = PInt 0\<rparr>
   \<and> period_law 60
       \<lparr>period_delta = 60000000, reset_time = 0, max_quota = PInt 100, quota_consumed = PInt 0\<rparr>"
proof -
  note c1 = C1_bucket_invariants
  from c1 have init: "quota_law (Bucket_init 60 0)" "range_law (Bucket_init 60 0)"
    by blast+
  from c1 have nq: "\<not> quota_law (run_ops (Bucket_init 60 0) [SetQuota (PFloat NaN)])"
    by blast
  from c1 have nr: "\<not> range_law
         (run_ops (Bucket_init 60 0) [Fill (PInt 100) 1, Deduct (PInt 50) 2, Deduct (PInt 10) 3])"
    by blast
  from c1 have inv: "bucket_invariant 60 (period_law 60)"
    by blast
  have run: "run_ops (Bucket_init 60 0) [SetQuota (PFloat NaN)] =
       \<lparr>period_delta = 60000000, reset_time = 0, max_quota = PInt 0,
        quota_consumed = PFloat NaN\<rparr>"
    unfolding run_SetQuota_NaN by (simp add: Bucket_init_def timedelta_seconds_def)
  have set: "quota_setter (Bucket_init 60 0) (PInt 100) =
       Inr \<lparr>period_delta = 60000000, reset_time = 0, max_quota = PInt 100,
            quota_consumed = PInt 0\<rparr>"
    by (simp add: quota_setter_def Bucket_init_def timedelta_seconds_def assert_py_def)
  from inv have p0: "period_law 60 (Bucket_init 60 0)"
    unfolding bucket_invariant_def by blast
  from inv p0 have "period_law 60 (fst (fill (Bucket_init 60 0) (PFloat NaN) 1))"
    unfolding bucket_invariant_def by blast
  moreover from inv p0 have "period_law 60 (fst (deduct (Bucket_init 60 0) (PInt 99) 2))"
    unfolding bucket_invariant_def by blast
  moreover from inv p0 set
  have "period_law 60
       \<lparr>period_delta = 60000000, reset_time = 0, max_quota = PInt 100, quota_consumed = PInt 0\<rparr>"
    unfolding bucket_invariant_def by blast
  ultimately show ?thesis using init nq nr p0 run set by simp
qed

text \<open>
  C1 as first stated, that no predicate on the bucket's state is established by the
  constructor and preserved by the operations, fails: the predicate
  \<open>period_delta == timedelta(seconds=60)\<close> is, for the bucket made by \<open>Bucket(60)\<close>,
  and it is a predicate that some buckets do not satisfy.
\<close>

theorem C1_counterexample:
  "bucket_invariant 60 (period_law 60)
   \<and> period_law 60 (Bucket_init 60 0)
   \<and> \<not> period_law 60 (Bucket_init 61 0)
   \<and> period_law 60
       (run_ops (Bucket_init 60 0) [Fill (PInt 100) 1, SetQuota (PFloat NaN), Deduct (PInt 5) 2])"
proof -
  have "bucket_invariant 60 (period_law 60)"
    unfolding period_law_def by (rule bucket_invariant_period_delta) simp
  then show ?thesis
    by (simp add: period_law_def run_ops_period Bucket_init_def timedelta_seconds_def)
qed

text \<open>
  How the second predicate comes to fail on ints: the consuming branch of the setter
  adds \<open>max_quota - amount\<close> to \<open>quota_consumed\<close>, which counts what was consumed
  before a second time, and a \<open>fill\<close> after that fails the setter's own assertion.
  A NaN also comes from amounts that are not NaN: \<open>fill(bucket, float('inf'))\<close> and
  then \<open>deduct(bucket, 5)\<close>.
\<close>

lemma fill_after_breaks_assertion:
  "fill \<lparr>period_delta = 60000000, reset_time = 0, max_quota = PInt 100, quota_consumed = PInt 110\<rparr>
       (PInt 5) 4 =
     (\<lparr>period_delta = 60000000, reset_time = 0, max_quota = PInt 100, quota_consumed = PInt 110\<rparr>,
      Some (Exn AssertionError []))"
  by (simp add: fill_def quota_iadd_def quota_setter_def quota_def assert_py_def)

lemma bitlen_5: "bitlen 5 = 3"
  by (simp add: bitlen_def compute_floorlog)

lemma float_of_int_5: "float_of_int 5 = Inr (Finite 5)"
proof -
  have "ilog2 5 = 2"
    using ilog2_of_int(1)[of 5] by (simp add: bitlen_5)
  then have "round_double 5 = Finite 5"
    by (simp add: round_double_def pow2_def round_half_even_def Let_def)
  then show ?thesis by (simp add: float_of_int_def)
qed

lemma fill_inf:
  "fill (Bucket_init 60 0) (PFloat PosInf) 1 =
     (\<lparr>period_delta = 60000000, reset_time = 0, max_quota = PFloat PosInf,
       quota_consumed = PInt 0\<rparr>, None)"
  by (simp add: fill_def quota_iadd_def Bucket_init_def timedelta_seconds_def quota_setter_def
        quota_def assert_py_def py_add_def py_sub_def float_of_int_0 ieee_sub_def py_eq_def
        py_lt_def)

lemma deduct_inf:
  "deduct \<lparr>period_delta = 60000000, reset_time = 0, max_quota = PFloat PosInf,
           quota_consumed = PInt 0\<rparr> (PInt 5) 2 =
     (\<lparr>period_delta = 60000000, reset_time = 0, max_quota = PFloat PosInf,
       quota_consumed = PFloat NaN\<rparr>, Inr True)"
  by (simp add: deduct_def quota_isub_def quota_setter_def quota_def assert_py_def
        py_add_def py_sub_def float_of_int_0 float_of_int_5 ieee_sub_def py_eq_def
        py_lt_def py_ge_def)

section \<open>Properties of the text and byte files (Item 3)\<close>

lemma with_write_text_bytes:
  "with_write name ModeW (Bytes bs) fs =
     (fs(name \<mapsto> Str []), Some (Exn TypeError ''write() argument must be str, not bytes''))"
  by (simp add: with_write_def open_py_def write_py_def)

lemma with_write_binary_bytes:
  "with_write name ModeWB (Bytes bs) fs = (fs(name \<mapsto> Bytes bs), None)"
  by (simp add: with_write_def open_py_def write_py_def overwrite_def)

text \<open>
  C6.  Writing the bytes of \<open>os.urandom(10)\<close> to \<open>random.bin\<close> opened in text mode
  \<open>'w'\<close> raises TypeError, so the \<open>except\<close> branch runs (it logs \<open>Expected\<close>) and the
  \<open>assert False\<close> of the \<open>else\<close> branch is not reached; writing such bytes to the
  file opened in binary mode \<open>'wb'\<close> does not raise, and the file then holds them.
\<close>

theorem C6_text_mode_rejects_bytes:
  "with_write ''random.bin'' ModeW (Bytes (map Byte random1)) fs =
     (fs(''random.bin'' \<mapsto> Str []),
      Some (Exn TypeError ''write() argument must be str, not bytes''))
   \<and> write_text_mode random1 fs lg =
       ((fs(''random.bin'' \<mapsto> Str []),
         lg @ [Line ''ERROR:root:Expected'',
               Traceback (Exn TypeError ''write() argument must be str, not bytes'')]),
        None)
   \<and> write_binary_mode random2 fs' = (fs'(''random.bin'' \<mapsto> Bytes (map Byte random2)), None)
   \<and> bytes_cell random1 random2 fs lg =
       ((fs(''random.bin'' \<mapsto> Bytes (map Byte random2)),
         lg @ [Line ''ERROR:root:Expected'',
               Traceback (Exn TypeError ''write() argument must be str, not bytes'')]),
        None)"
  by (simp add: bytes_cell_def write_text_mode_def write_binary_mode_def
        with_write_text_bytes with_write_binary_bytes logging_exception_def)

section \<open>Properties of the pickled game state (Item 44)\<close>

lemmas nb44_defs = cell1_def cell2_def cell3_def cell4_def cell5_def cell6_def cell7_def
  fresh44_def bind_class_def new_state_def construct_def bind_args_def state_add_def
  get_var_def add_attr_def dump_state_def pickle_dump_file_def open_py_def write_py_def
  overwrite_def pickle_dumps_def load_state_after_def pickle_load_file_def pickle_loads_def
  print_state_after_def dumps_state_def loads_state_after_def loads_serialized_def
  assert_isinstance_GameState_def assert_py_def def_pickle_game_state_def
  def_unpickle_game_state_def copyreg_pickle_def call_GameState_def
  loads_expecting_error_def logging_exception_def dispatch_table_clear_def del_GameState_def
  state_path_def

lemma run44:
  "snd (notebook44_run fs) = None"
  "printed (fst (notebook44_run fs)) =
     [[(''level'', 1), (''lives'', 3)],
      [(''level'', 0), (''lives'', 4), (''points'', 0)],
      [(''level'', 1), (''lives'', 3)],
      [(''level'', 0), (''lives'', 4), (''points'', 1000)],
      [(''level'', 0), (''lives'', 4), (''points'', 1000), (''magic'', 5)],
      [(''level'', 0), (''points'', 1000), (''magic'', 5)]]"
  "files (fst (notebook44_run fs)) =
     fs(''game_state.bin'' \<mapsto>
        Bytes [PickleOf (ByClass ''GameState'' [(''level'', 1), (''lives'', 3)])])"
  by (simp_all add: notebook44_run_def nb44_defs Let_def)

lemma pickle_dump_file_by_class:
  assumes "dispatch_table en (cls_of obj) = None"
    and "classes en (class_name (cls_of obj)) = Some (cls_of obj)"
  shows "pickle_dump_file en path obj fs =
           ((obj, fs(path \<mapsto> Bytes [PickleOf (ByClass (class_name (cls_of obj)) (attrs obj))])),
            None)"
  using assms
  by (simp add: pickle_dump_file_def open_py_def pickle_dumps_def write_py_def overwrite_def)

lemma pickle_load_file_by_class:
  assumes "fs path = Some (Bytes [PickleOf (ByClass name st)])"
    and "classes en name = Some c"
  shows "pickle_load_file en path fs = Inr \<lparr>cls_of = c, attrs = st\<rparr>"
  using assms
  by (simp add: pickle_load_file_def open_py_def pickle_loads_def)

lemma construct_GameState16:
  "construct GameState16 [] [(''level'', level), (''points'', points)] =
     Inr \<lparr>cls_of = GameState16,
          attrs = [(''level'', level), (''points'', points), (''magic'', 5)]\<rparr>"
  "construct GameState16 [] [(''level'', level), (''points'', points), (''magic'', magic)] =
     Inr \<lparr>cls_of = GameState16,
          attrs = [(''level'', level), (''points'', points), (''magic'', magic)]\<rparr>"
  "\<exists>m. construct GameState16 [] [(''level'', level), (''lives'', lives), (''points'', points)] =
     Inl (Exn TypeError m)"
  by (simp_all add: construct_def bind_args_def)

lemma version1_data_loads:
  assumes "unpickle_binding en = Some UnpickleGameState19"
    and "classes en ''GameState'' = Some GameState16"
  shows "pickle_loads en (ByFunction ''unpickle_game_state''
            [(''level'', level), (''lives'', lives), (''points'', points)]) =
         Inr \<lparr>cls_of = GameState16,
              attrs = [(''level'', level), (''points'', points), (''magic'', 5)]\<rparr>"
  using assms
  by (simp add: pickle_loads_def call_GameState_def construct_GameState16)

lemma version2_data_round_trip:
  assumes "unpickle_binding en = Some UnpickleGameState19"
    and "classes en ''GameState'' = Some GameState16"
    and "dispatch_table en GameState16 = Some PickleGameState18"
  shows "pickle_dumps en \<lparr>cls_of = GameState16,
            attrs = [(''level'', level), (''points'', points), (''magic'', magic)]\<rparr> =
         (\<lparr>cls_of = GameState16,
            attrs = [(''level'', level), (''points'', points), (''magic'', magic), (''version'', 2)]\<rparr>,
          Inr (ByFunction ''unpickle_game_state''
            [(''level'', level), (''points'', points), (''magic'', magic), (''version'', 2)]))"
    and "pickle_loads en (ByFunction ''unpickle_game_state''
            [(''level'', level), (''points'', points), (''magic'', magic), (''version'', 2)]) =
         Inr \<lparr>cls_of = GameState16,
              attrs = [(''level'', level), (''points'', points), (''magic'', magic)]\<rparr>"
  using assms
  by (simp_all add: pickle_dumps_def pickle_loads_def call_GameState_def construct_GameState16
        Let_def)

lemma bindings_of_run:
  "bindings (fst (run_cells cell1 (fresh44 fs))) = bindings_example3"
  "bindings (fst (run_cells (cell1 @ cell2 @ cell3) (fresh44 fs))) = bindings_example7"
  "bindings (fst (run_cells (cell1 @ cell2 @ cell3 @ cell4 @ cell5 @ cell6) (fresh44 fs))) =
     bindings_example20"
  by (simp_all add: nb44_defs Let_def bindings_example3_def bindings_example7_def
        bindings_example20_def fun_upd_twist)

text \<open>
  C2, as amended.  One notebook does write data to be read back later, in a
  serialized object format made to survive changes to the program.  A game state
  dumped to a file is loaded back from it with the same attributes, as an instance of
  whatever class its name is bound to when it is loaded; run in order, the notebook
  writes \<open>game_state.bin\<close> in Example 3 and reads it back in Examples 4 and 7, the
  second time after \<open>GameState\<close> has been redefined, and raises nothing.  Under the
  functions of Examples 18 and 19 registered with \<open>copyreg\<close>, data written before the
  \<open>lives\<close> field was removed (no version in it) loads into a game state of the new
  class, and data of the new class is written with \<open>version\<close> 2 and loads back.
\<close>

theorem C2_pickle_persists:
  "(\<forall>e0 obj path fs e1 c.
      dispatch_table e0 (cls_of obj) = None \<and>
      classes e0 (class_name (cls_of obj)) = Some (cls_of obj) \<and>
      classes e1 (class_name (cls_of obj)) = Some c \<longrightarrow>
      (\<exists>fs'. pickle_dump_file e0 path obj fs = ((obj, fs'), None) \<and>
             pickle_load_file e1 path fs' = Inr \<lparr>cls_of = c, attrs = attrs obj\<rparr>))
   \<and> (\<forall>fs.
        snd (notebook44_run fs) = None \<and>
        printed (fst (notebook44_run fs)) =
          [[(''level'', 1), (''lives'', 3)],
           [(''level'', 0), (''lives'', 4), (''points'', 0)],
           [(''level'', 1), (''lives'', 3)],
           [(''level'', 0), (''lives'', 4), (''points'', 1000)],
           [(''level'', 0), (''lives'', 4), (''points'', 1000), (''magic'', 5)],
           [(''level'', 0), (''points'', 1000), (''magic'', 5)]] \<and>
        files (fst (notebook44_run fs)) =
          fs(''game_state.bin'' \<mapsto>
             Bytes [PickleOf (ByClass ''GameState'' [(''level'', 1), (''lives'', 3)])]))
   \<and> (\<forall>e1 level lives points.
        unpickle_binding e1 = Some UnpickleGameState19 \<and>
        classes e1 ''GameState'' = Some GameState16 \<longrightarrow>
        pickle_loads e1 (ByFunction ''unpickle_game_state''
            [(''level'', level), (''lives'', lives), (''points'', points)]) =
          Inr \<lparr>cls_of = GameState16,
               attrs = [(''level'', level), (''points'', points), (''magic'', 5)]\<rparr>)
   \<and> (\<forall>e1 level points magic.
        unpickle_binding e1 = Some UnpickleGameState19 \<and>
        classes e1 ''GameState'' = Some GameState16 \<and>
        dispatch_table e1 GameState16 = Some PickleGameState18 \<longrightarrow>
        snd (pickle_dumps e1 \<lparr>cls_of = GameState16,
               attrs = [(''level'', level), (''points'', points), (''magic'', magic)]\<rparr>) =
          Inr (ByFunction ''unpickle_game_state''
            [(''level'', level), (''points'', points), (''magic'', magic), (''version'', 2)]) \<and>
        pickle_loads e1 (ByFunction ''unpickle_game_state''
            [(''level'', level), (''points'', points), (''magic'', magic), (''version'', 2)]) =
          Inr \<lparr>cls_of = GameState16,
               attrs = [(''level'', level), (''points'', points), (''magic'', magic)]\<rparr>)"
proof (intro conjI allI impI)
  fix e0 e1 :: env and obj :: state_object and path and fs :: "pickled fs" and c
  assume h: "dispatch_table e0 (cls_of obj) = None \<and>
      classes e0 (class_name (cls_of obj)) = Some (cls_of obj) \<and>
      classes e1 (class_name (cls_of obj)) = Some c"
  let ?fs' = "fs(path \<mapsto> Bytes [PickleOf (ByClass (class_name (cls_of obj)) (attrs obj))])"
  have "pickle_dump_file e0 path obj fs = ((obj, ?fs'), None)"
    using h by (simp add: pickle_dump_file_by_class)
  moreover have "pickle_load_file e1 path ?fs' = Inr \<lparr>cls_of = c, attrs = attrs obj\<rparr>"
    using h by (simp add: pickle_load_file_by_class)
  ultimately show "\<exists>fs'. pickle_dump_file e0 path obj fs = ((obj, fs'), None) \<and>
             pickle_load_file e1 path fs' = Inr \<lparr>cls_of = c, attrs = attrs obj\<rparr>"
    by blast
qed (simp_all add: run44 version1_data_loads version2_data_round_trip)

theorem C2_pickle_persists_witness:
  "dispatch_table bindings_example3 GameState1 = None
   \<and> classes bindings_example3 ''GameState'' = Some GameState1
   \<and> classes bindings_example7 ''GameState'' = Some GameState5
   \<and> (\<exists>fs'. pickle_dump_file bindings_example3 ''game_state.bin''
                \<lparr>cls_of = GameState1, attrs = [(''level'', 1), (''lives'', 3)]\<rparr> Map.empty =
              ((\<lparr>cls_of = GameState1, attrs = [(''level'', 1), (''lives'', 3)]\<rparr>, fs'), None) \<and>
            pickle_load_file bindings_example7 ''game_state.bin'' fs' =
              Inr \<lparr>cls_of = GameState5, attrs = [(''level'', 1), (''lives'', 3)]\<rparr>)
   \<and> unpickle_binding bindings_example20 = Some UnpickleGameState19
   \<and> classes bindings_example20 ''GameState'' = Some GameState16
   \<and> dispatch_table bindings_example20 GameState16 = Some PickleGameState18
   \<and> pickle_loads bindings_example20 (ByFunction ''unpickle_game_state''
          [(''level'', 0), (''lives'', 4), (''points'', 1000)]) =
       Inr \<lparr>cls_of = GameState16, attrs = [(''level'', 0), (''points'', 1000), (''magic'', 5)]\<rparr>
   \<and> pickle_loads bindings_example20 (ByFunction ''unpickle_game_state''
          [(''level'', 2), (''points'', 30), (''magic'', 4), (''version'', 2)]) =
       Inr \<lparr>cls_of = GameState16, attrs = [(''level'', 2), (''points'', 30), (''magic'', 4)]\<rparr>"
proof -
  let ?obj = "\<lparr>cls_of = GameState1, attrs = [(''level'', 1), (''lives'', 3)]\<rparr>"
  have h1: "dispatch_table bindings_example3 (cls_of ?obj) = None \<and>
      classes bindings_example3 (class_name (cls_of ?obj)) = Some (cls_of ?obj) \<and>
      classes bindings_example7 (class_name (cls_of ?obj)) = Some GameState5"
    by (simp add: bindings_example3_def bindings_example7_def)
  have h2: "unpickle_binding bindings_example20 = Some UnpickleGameState19 \<and>
        classes bindings_example20 ''GameState'' = Some GameState16"
    by (simp add: bindings_example20_def)
  have h3: "unpickle_binding bindings_example20 = Some UnpickleGameState19 \<and>
        classes bindings_example20 ''GameState'' = Some GameState16 \<and>
        dispatch_table bindings_example20 GameState16 = Some PickleGameState18"
    by (simp add: bindings_example20_def)
  note a = C2_pickle_persists[THEN conjunct1, rule_format, OF h1,
      where path = "''game_state.bin''" and fs = Map.empty]
  note b = C2_pickle_persists[THEN conjunct2, THEN conjunct2, THEN conjunct1, rule_format, OF h2,
      where level = 0 and lives = 4 and points = 1000]
  note c = C2_pickle_persists[THEN conjunct2, THEN conjunct2, THEN conjunct2, rule_format, OF h3,
      where level = 2 and points = 30 and magic = 4, THEN conjunct2]
  from a b c h1 h3 show ?thesis by simp
qed

text \<open>
  C2 as first stated, that no program writes data to be read back later and that there
  is no serialized object format meant to survive changes to the program, fails on the
  notebook itself: what Example 3 wrote to \<open>game_state.bin\<close> is there after the cell,
  Example 7 loads it under the redefined class, and the data serialized in Example 13
  loads in Example 20 under the class without \<open>lives\<close>.
\<close>

theorem C2_counterexample:
  "snd (notebook44_run Map.empty) = None
   \<and> files (fst (run_cells (cell1 @ cell2) (fresh44 Map.empty))) ''game_state.bin'' =
       Some (Bytes [PickleOf (ByClass ''GameState'' [(''level'', 1), (''lives'', 3)])])
   \<and> bindings (fst (run_cells (cell1 @ cell2 @ cell3) (fresh44 Map.empty))) = bindings_example7
   \<and> pickle_load_file bindings_example7 ''game_state.bin''
         (files (fst (run_cells (cell1 @ cell2 @ cell3) (fresh44 Map.empty)))) =
       Inr \<lparr>cls_of = GameState5, attrs = [(''level'', 1), (''lives'', 3)]\<rparr>
   \<and> pickle_loads bindings_example20 (ByFunction ''unpickle_game_state''
          [(''level'', 0), (''lives'', 4), (''points'', 1000)]) =
       Inr \<lparr>cls_of = GameState16, attrs = [(''level'', 0), (''points'', 1000), (''magic'', 5)]\<rparr>"
proof -
  have f: "files (fst (run_cells (cell1 @ cell2) (fresh44 Map.empty))) ''game_state.bin'' =
       Some (Bytes [PickleOf (ByClass ''GameState'' [(''level'', 1), (''lives'', 3)])])"
    "files (fst (run_cells (cell1 @ cell2 @ cell3) (fresh44 Map.empty))) ''game_state.bin'' =
       Some (Bytes [PickleOf (ByClass ''GameState'' [(''level'', 1), (''lives'', 3)])])"
    by (simp_all add: nb44_defs Let_def)
  have l: "pickle_load_file bindings_example7 ''game_state.bin''
         (files (fst (run_cells (cell1 @ cell2 @ cell3) (fresh44 Map.empty)))) =
       Inr \<lparr>cls_of = GameState5, attrs = [(''level'', 1), (''lives'', 3)]\<rparr>"
    using f(2) by (simp add: pickle_load_file_by_class[where name = "''GameState''"]
        bindings_example7_def)
  have v: "pickle_loads bindings_example20 (ByFunction ''unpickle_game_state''
          [(''level'', 0), (''lives'', 4), (''points'', 1000)]) =
       Inr \<lparr>cls_of = GameState16, attrs = [(''level'', 0), (''points'', 1000), (''magic'', 5)]\<rparr>"
    by (rule version1_data_loads) (simp_all add: bindings_example20_def)
  show ?thesis
    by (intro conjI run44(1) f(1) bindings_of_run(2) l v)
qed

lemma old_unpickler_fails:
  assumes "unpickle_binding en = Some UnpickleGameState11"
    and "classes en ''GameState'' = Some GameState16"
  shows "\<exists>m. pickle_loads en (ByFunction ''unpickle_game_state''
            [(''level'', level), (''lives'', lives), (''points'', points)]) =
         Inl (Exn TypeError m)"
  using assms construct_GameState16(3)[of level lives points]
  by (simp add: pickle_loads_def call_GameState_def)

section \<open>Properties of the working directory\<close>

lemma with_write_text: "with_write name ModeW (Str t) fs = (fs(name \<mapsto> Str t), None)"
  by (simp add: with_write_def open_py_def write_py_def overwrite_def)

lemma write_all_appends:
  assumes "fs (fname f) = Some (Str old)" "pos f = length old" "fmode f = ModeW"
  shows "write_all f ts fs = (fs(fname f \<mapsto> Str (old @ concat ts)), None)"
  using assms
proof (induction ts arbitrary: f fs old)
  case Nil
  then show ?case by (simp add: fun_upd_idem)
next
  case (Cons t ts)
  let ?f = "f\<lparr>pos := pos f + length t\<rparr>"
  let ?fs = "fs(fname f \<mapsto> Str (old @ t))"
  have w: "write_py f (Str t) fs = ((?f, ?fs), None)"
    using Cons.prems by (simp add: write_py_def overwrite_def)
  have "write_all ?f ts ?fs = (?fs(fname ?f \<mapsto> Str ((old @ t) @ concat ts)), None)"
    by (rule Cons.IH) (use Cons.prems in simp_all)
  then show ?case by (auto simp: w)
qed

lemma write_my_file_result:
  "write_my_file ri fs = (fs(''my_file.txt'' \<mapsto> Str (concat (random_lines ri))), None)"
proof -
  have "write_all \<lparr>fname = ''my_file.txt'', fmode = ModeW, pos = 0\<rparr> (random_lines ri)
          (fs(''my_file.txt'' \<mapsto> Str [])) =
        ((fs(''my_file.txt'' \<mapsto> Str []))(fname \<lparr>fname = ''my_file.txt'', fmode = ModeW, pos = 0\<rparr>
            \<mapsto> Str ([] @ concat (random_lines ri))), None)"
    by (rule write_all_appends) simp_all
  then show ?thesis by (simp add: write_my_file_def open_py_def)
qed

lemma file_lines_written: "file_lines name (fs(name \<mapsto> Str t)) = Inr (lines_from [] t)"
  by (simp add: file_lines_def open_py_def read_py_def)

lemma item9_cells_local:
  "item9_cells ri sh ph fs =
     ((fs ++ fst (fst (item9_cells ri sh ph Map.empty)), snd (fst (item9_cells ri sh ph Map.empty))),
      snd (item9_cells ri sh ph Map.empty))"
  by (simp add: item9_cells_def write_my_file_result line_lengths_def file_lines_written
        generator_cells_def Let_def split: sum.splits prod.splits)

lemma item9_cells_dom:
  "dom (fst (fst (item9_cells ri sh ph Map.empty))) \<subseteq> {''my_file.txt''}"
  by (simp add: item9_cells_def write_my_file_result line_lengths_def file_lines_written
        generator_cells_def Let_def split: sum.splits prod.splits)

lemma finally_cell_result:
  "finally_cell fs =
     (fs(''random_data.txt'' \<mapsto>
          Str (''success'' @ [NEWLINE] @ ''and'' @ [NEWLINE] @ ''new'' @ [NEWLINE] @ ''lines'')),
      Inr (''success'' @ [NEWLINE] @ ''and'' @ [NEWLINE] @ ''new'' @ [NEWLINE] @ ''lines''))"
  by (simp add: finally_cell_def write_file_def with_write_text open_py_def read_py_def)

lemma write_file_result: "write_file path t fs = (fs(path \<mapsto> Str t), None)"
  by (simp add: write_file_def with_write_text)

text \<open>
  What \<open>divide_json\<close> does depends on the file at the path only, and it changes
  that file only.
\<close>

lemma divide_json_local:
  "divide_json lds dps path (fs(path \<mapsto> Str t)) =
     (fs ++ fst (divide_json lds dps path [path \<mapsto> Str t]),
      snd (divide_json lds dps path [path \<mapsto> Str t]))"
  by (simp add: divide_json_def open_py_def divide_json_try_def read_py_def
        divide_json_else_def write_py_def seek_py_def Let_def
      split: sum.splits prod.splits option.splits)

lemma divide_json_dom:
  "dom (fst (divide_json lds dps path [path \<mapsto> Str t])) = {path}"
  by (simp add: divide_json_def open_py_def divide_json_try_def read_py_def
        divide_json_else_def write_py_def seek_py_def Let_def
      split: sum.splits prod.splits option.splits)

lemma divide_json_normal:
  "\<exists>c r. \<forall>fs :: pickled fs.
     divide_json lds dps path (fs(path \<mapsto> Str t)) = (fs(path \<mapsto> c), r)"
proof -
  let ?F = "fst (divide_json lds dps path [path \<mapsto> (Str t :: pickled data)])"
  have "path \<in> dom ?F" by (simp add: divide_json_dom)
  then obtain c where c: "?F path = Some c" by blast
  have F: "?F = [path \<mapsto> c]"
  proof
    fix x show "?F x = [path \<mapsto> c] x"
      using c divide_json_dom[of lds dps path t] by (cases "x = path") auto
  qed
  have "\<forall>fs. divide_json lds dps path (fs(path \<mapsto> Str t)) =
      (fs(path \<mapsto> c), snd (divide_json lds dps path [path \<mapsto> (Str t :: pickled data)]))"
  proof
    fix fs :: "pickled fs"
    show "divide_json lds dps path (fs(path \<mapsto> Str t)) =
      (fs(path \<mapsto> c), snd (divide_json lds dps path [path \<mapsto> (Str t :: pickled data)]))"
      by (subst divide_json_local) (simp add: F)
  qed
  then show ?thesis by blast
qed

lemma divide_json_cell_normal:
  "\<exists>c r. \<forall>fs :: pickled fs. divide_json_cell lds dps fs = (fs(temp_path \<mapsto> c), r)"
proof -
  obtain c1 r1 where d1: \<open>\<forall>fs :: pickled fs. divide_json lds dps temp_path
        (fs(temp_path \<mapsto> Str ''{"numerator": 1, "denominator": 10}'')) = (fs(temp_path \<mapsto> c1), r1)\<close>
    using divide_json_normal[of lds dps temp_path] by blast
  obtain c2 r2 where d2: \<open>\<forall>fs :: pickled fs. divide_json lds dps temp_path
        (fs(temp_path \<mapsto> Str ''{"numerator": 1, "denominator": 0}'')) = (fs(temp_path \<mapsto> c2), r2)\<close>
    using divide_json_normal[of lds dps temp_path] by blast
  obtain c3 r3 where d3: \<open>\<forall>fs :: pickled fs. divide_json lds dps temp_path
        (fs(temp_path \<mapsto> Str ''{"numerator": 1 bad data'')) = (fs(temp_path \<mapsto> c3), r3)\<close>
    using divide_json_normal[of lds dps temp_path] by blast
  have "\<forall>fs :: pickled fs. divide_json_cell lds dps fs =
     (fs(temp_path \<mapsto> the (fst (divide_json_cell lds dps (Map.empty :: pickled fs)) temp_path)),
      snd (divide_json_cell lds dps (Map.empty :: pickled fs)))"
    by (simp add: divide_json_cell_def write_file_result d1 d2 d3 split: sum.splits)
  then show ?thesis by blast
qed

lemma item13_cells_normal:
  "\<exists>W r. (\<forall>fs :: pickled fs. item13_cells lds dps fs = (fs ++ W, r)) \<and>
         dom W \<subseteq> {''random_data.txt'', ''random_data.json''}"
proof -
  obtain c r where d: "\<forall>fs :: pickled fs. divide_json_cell lds dps fs = (fs(temp_path \<mapsto> c), r)"
    using divide_json_cell_normal by blast
  let ?t = "''success'' @ [NEWLINE] @ ''and'' @ [NEWLINE] @ ''new'' @ [NEWLINE] @ ''lines''"
  show ?thesis
  proof (cases "load_json_key_cell lds")
    case None
    have "\<forall>fs :: pickled fs. item13_cells lds dps fs =
        (fs ++ [''random_data.txt'' \<mapsto> Str ?t, ''random_data.json'' \<mapsto> c], r)"
      by (simp add: item13_cells_def finally_cell_result None d temp_path_def)
    moreover have "dom [''random_data.txt'' \<mapsto> Str ?t, ''random_data.json'' \<mapsto> c]
        \<subseteq> {''random_data.txt'', ''random_data.json''}" by simp
    ultimately show ?thesis by blast
  next
    case (Some e)
    have "\<forall>fs :: pickled fs. item13_cells lds dps fs =
        (fs ++ [''random_data.txt'' \<mapsto> Str ?t], Some e)"
      by (simp add: item13_cells_def finally_cell_result Some)
    moreover have "dom [''random_data.txt'' \<mapsto> (Str ?t :: pickled data)]
        \<subseteq> {''random_data.txt'', ''random_data.json''}" by simp
    ultimately show ?thesis by blast
  qed
qed

lemma item9_cells_normal:
  "\<exists>W out r. (\<forall>fs :: pickled fs. item9_cells ri sh ph fs = ((fs ++ W, out), r)) \<and>
         dom W \<subseteq> {''my_file.txt''}"
proof -
  let ?e = "Map.empty :: pickled fs"
  have "\<forall>fs :: pickled fs. item9_cells ri sh ph fs =
     ((fs ++ fst (fst (item9_cells ri sh ph ?e)), snd (fst (item9_cells ri sh ph ?e))),
      snd (item9_cells ri sh ph ?e))"
    using item9_cells_local by blast
  moreover have "dom (fst (fst (item9_cells ri sh ph ?e))) \<subseteq> {''my_file.txt''}"
    by (rule item9_cells_dom)
  ultimately show ?thesis by blast
qed

lemma index_file_cell_result:
  "index_file_cell fs =
     ((fs(''address.txt'' \<mapsto> Str address_lines),
       [PrintInts (list_py (islice (index_file (lines_from [] address_lines)) 3))]), None)"
  by (simp add: index_file_cell_def with_write_text file_lines_written)

lemma my_output_cell_result:
  "my_output_cell fs = (fs(''my_output.txt'' \<mapsto> Str ''This is some data!''), None)"
  by (simp add: my_output_cell_def with_write_text)

lemma bytes_cell_result:
  "bytes_cell r1 r2 fs lg =
       ((fs(''random.bin'' \<mapsto> Bytes (map Byte r2)),
         lg @ [Line ''ERROR:root:Expected'',
               Traceback (Exn TypeError ''write() argument must be str, not bytes'')]),
        None)"
  by (simp add: bytes_cell_def write_text_mode_def write_binary_mode_def
        with_write_text_bytes with_write_binary_bytes logging_exception_def)

lemma run44_logged:
  "logged44 (fst (notebook44_run fs)) =
     [Line ''ERROR:root:Expected'', Traceback (Exn TypeError ''unexpected keyword argument''),
      Line ''ERROR:root:Expected'', Traceback (Exn AttributeError ''GameState'')]"
  by (simp add: notebook44_run_def nb44_defs Let_def)

text \<open>
  The run of a notebook in any working directory: what it shows is fixed by the
  notebook and its inputs, and the directory afterwards is the directory before with
  the notebook's own files laid over it.
\<close>

lemma run_files_normal:
  "\<exists>obs W. (\<forall>fs. run_files n inp fs = (obs, fs ++ W)) \<and> dom W \<subseteq> set (files_of n)"
proof (cases n)
  case Item3
  have "\<forall>fs. run_files Item3 inp fs =
      (nothing_observed\<lparr>log_written := [Line ''ERROR:root:Expected'',
               Traceback (Exn TypeError ''write() argument must be str, not bytes'')],
          uncaught := None\<rparr>,
       fs ++ [''random.bin'' \<mapsto> Bytes (map Byte (in_urandom2 inp))])"
    by (simp add: bytes_cell_result)
  moreover have "dom [''random.bin'' \<mapsto> (Bytes (map Byte (in_urandom2 inp)) :: pickled data)]
      \<subseteq> set (files_of Item3)" by simp
  ultimately show ?thesis unfolding Item3 by blast
next
  case Item9
  obtain W out r where
    w: "\<forall>fs :: pickled fs. item9_cells (in_randint inp) (in_shown inp) (in_pow_half inp) fs =
          ((fs ++ W, out), r)" and d: "dom W \<subseteq> {''my_file.txt''}"
    using item9_cells_normal by blast
  have "\<forall>fs. run_files Item9 inp fs =
      (nothing_observed\<lparr>values_printed := out, uncaught := r\<rparr>, fs ++ W)"
    by (simp add: w)
  moreover have "dom W \<subseteq> set (files_of Item9)" using d by simp
  ultimately show ?thesis unfolding Item9 by blast
next
  case Item13
  obtain W r where
    w: "\<forall>fs :: pickled fs. item13_cells (in_loads inp) (in_dumps inp) fs = (fs ++ W, r)"
    and d: "dom W \<subseteq> {''random_data.txt'', ''random_data.json''}"
    using item13_cells_normal by blast
  have "\<forall>fs. run_files Item13 inp fs = (nothing_observed\<lparr>uncaught := r\<rparr>, fs ++ W)"
    by (simp add: w)
  moreover have "dom W \<subseteq> set (files_of Item13)" using d by simp
  ultimately show ?thesis unfolding Item13 by blast
next
  case Item16
  have "\<forall>fs. run_files Item16 inp fs =
      (nothing_observed\<lparr>values_printed :=
          [PrintInts (list_py (islice (index_file (lines_from [] address_lines)) 3))],
          uncaught := None\<rparr>,
       fs ++ [''address.txt'' \<mapsto> Str address_lines])"
    by (simp add: index_file_cell_result)
  moreover have "dom [''address.txt'' \<mapsto> (Str address_lines :: pickled data)]
      \<subseteq> set (files_of Item16)" by simp
  ultimately show ?thesis unfolding Item16 by blast
next
  case Item43
  have "\<forall>fs. run_files Item43 inp fs =
      (nothing_observed\<lparr>uncaught := None\<rparr>,
       fs ++ [''my_output.txt'' \<mapsto> Str ''This is some data!''])"
    by (simp add: my_output_cell_result)
  moreover have "dom [''my_output.txt'' \<mapsto> (Str ''This is some data!'' :: pickled data)]
      \<subseteq> set (files_of Item43)" by simp
  ultimately show ?thesis unfolding Item43 by blast
next
  case Item44
  let ?W = "[''game_state.bin'' \<mapsto>
        Bytes [PickleOf (ByClass ''GameState'' [(''level'', 1), (''lives'', 3)])]]"
  have "\<forall>fs. run_files Item44 inp fs =
      (\<lparr>values_printed = [], dicts_printed = printed (fst (notebook44_run Map.empty)),
        log_written = logged44 (fst (notebook44_run Map.empty)), uncaught = None\<rparr>,
       fs ++ ?W)"
    using run44 run44_logged by (simp add: split_beta)
  moreover have "dom ?W \<subseteq> set (files_of Item44)" by simp
  ultimately show ?thesis unfolding Item44 by blast
qed (simp_all add: exI[of _ Map.empty])

lemma files_of_disjoint: "n \<noteq> m \<Longrightarrow> set (files_of n) \<inter> set (files_of m) = {}"
  by (cases n; cases m; simp)

text \<open>
  C7.  The notebooks do not interact.  No two notebooks name a common file; a run
  leaves every file that is not the notebook's own as it was; what a run shows does
  not depend on the working directory it starts from; so what a notebook shows is the
  same whether or not another notebook (or the notebook itself) has run before it.
\<close>

theorem C7_notebooks_independent:
  "(\<forall>n m. n \<noteq> m \<longrightarrow> set (files_of n) \<inter> set (files_of m) = {})
   \<and> (\<forall>n inp fs name. name \<notin> set (files_of n) \<longrightarrow>
         snd (run_files n inp fs) name = fs name)
   \<and> (\<forall>n inp fs1 fs2. fst (run_files n inp fs1) = fst (run_files n inp fs2))
   \<and> (\<forall>n m inp inp' fs.
         fst (run_files n inp (snd (run_files m inp' fs))) = fst (run_files n inp fs))"
proof (intro conjI allI impI)
  fix n m :: notebook assume "n \<noteq> m"
  then show "set (files_of n) \<inter> set (files_of m) = {}" by (rule files_of_disjoint)
next
  fix n inp fs name assume out: "name \<notin> set (files_of n)"
  obtain obs W where w: "\<forall>fs. run_files n inp fs = (obs, fs ++ W)"
    and d: "dom W \<subseteq> set (files_of n)"
    using run_files_normal by blast
  from out d have "W name = None" by blast
  then show "snd (run_files n inp fs) name = fs name" by (simp add: w map_add_def)
next
  fix n inp fs1 fs2
  obtain obs W where "\<forall>fs. run_files n inp fs = (obs, fs ++ W)"
    using run_files_normal by blast
  then show "fst (run_files n inp fs1) = fst (run_files n inp fs2)" by simp
next
  fix n m inp inp' fs
  obtain obs W where "\<forall>fs. run_files n inp fs = (obs, fs ++ W)"
    using run_files_normal by blast
  then show "fst (run_files n inp (snd (run_files m inp' fs))) = fst (run_files n inp fs)"
    by simp
qed

theorem C7_notebooks_independent_witness:
  "Item9 \<noteq> Item44
   \<and> set (files_of Item9) \<inter> set (files_of Item44) = {}
   \<and> ''game_state.bin'' \<notin> set (files_of Item9)
   \<and> snd (run_files Item9 example_inputs Map.empty) ''game_state.bin'' = None
   \<and> fst (run_files Item9 example_inputs (snd (run_files Item44 example_inputs Map.empty))) =
       fst (run_files Item9 example_inputs Map.empty)"
proof -
  have ne: "Item9 \<noteq> Item44" by simp
  have out: "''game_state.bin'' \<notin> set (files_of Item9)" by simp
  note a = C7_notebooks_independent[THEN conjunct1, rule_format, OF ne]
  note b = C7_notebooks_independent[THEN conjunct2, THEN conjunct1, rule_format, OF out,
      of example_inputs Map.empty]
  note c = C7_notebooks_independent[THEN conjunct2, THEN conjunct2, THEN conjunct2, rule_format,
      of Item9 example_inputs Item44 example_inputs Map.empty]
  from ne out a b c show ?thesis by simp
qed

section \<open>Properties of the assertions in the cells\<close>










lemma counter_cell_result: "counter_cell = None"
  by (simp add: counter_cell_def getitem_key_def setitem_key_def Let_def)














lemma example21_2:
  "example21 2 =
     [AssignResult
        (Call SafeDivision [PFloat (Finite 1), PInt TEN_POW_500, PBool True, PBool False] []),
      PrintResult,
      AssertResult Is0,
      AssignResult (Call SafeDivision [PFloat (Finite 1), PInt 0, PBool False, PBool True] []),
      PrintResult,
      AssertResult EqInf]"
  by (simp add: example21_def examples21_def)

lemma count_asserts_notebook21: "count_asserts (concat (map snd examples21)) = 7"
  by (simp add: examples21_def count_asserts_def)


























end
